theory Spec2Isabelle
  imports Complex_Main "HOL-Library.Word" "HOL-Library.Sublist" "HOL-Library.Signed_Division"
begin

section \<open>Go values used by the exporter\<close>

subsection \<open>float64\<close>

text \<open>
  A Go \<^verbatim>\<open>float64\<close> is NaN, one of the two infinities, or a finite number. Finite numbers
  are carried as reals; the tests, comparisons and conversions below are the ones of
  IEEE 754 as Go performs them. Signed zeros are not told apart.
\<close>

datatype float64 = NaN | PInf | NInf | Fin real

text \<open>\<^verbatim>\<open>math.IsNaN(f)\<close> and \<^verbatim>\<open>math.IsInf(f, 0)\<close>.\<close>

fun IsNaN :: "float64 \<Rightarrow> bool" where
  "IsNaN NaN = True"
| "IsNaN _ = False"

fun IsInf :: "float64 \<Rightarrow> bool" where
  "IsInf PInf = True"
| "IsInf NInf = True"
| "IsInf _ = False"

text \<open>Go's comparison operators on float64: every comparison with NaN is false.\<close>

fun f_lt :: "float64 \<Rightarrow> float64 \<Rightarrow> bool" where
  "f_lt (Fin x) (Fin y) = (x < y)"
| "f_lt (Fin x) PInf = True"
| "f_lt NInf (Fin y) = True"
| "f_lt NInf PInf = True"
| "f_lt _ _ = False"

fun f_le :: "float64 \<Rightarrow> float64 \<Rightarrow> bool" where
  "f_le (Fin x) (Fin y) = (x \<le> y)"
| "f_le (Fin x) PInf = True"
| "f_le NInf (Fin y) = True"
| "f_le NInf PInf = True"
| "f_le NInf NInf = True"
| "f_le PInf PInf = True"
| "f_le _ _ = False"

definition f_gt :: "float64 \<Rightarrow> float64 \<Rightarrow> bool" where
  "f_gt a b = f_lt b a"

definition f_ge :: "float64 \<Rightarrow> float64 \<Rightarrow> bool" where
  "f_ge a b = f_le b a"

subsection \<open>int64 and the conversions between int64 and float64\<close>

type_synonym int64 = "64 word"

definition MinInt64 :: int where
  "MinInt64 = - (2 ^ 63)"

definition MaxInt64 :: int where
  "MaxInt64 = 2 ^ 63 - 1"

text \<open>The number of binary digits of a natural number.\<close>

fun bitlen :: "nat \<Rightarrow> nat" where
  "bitlen n = (if n = 0 then 0 else Suc (bitlen (n div 2)))"

text \<open>
  Conversion of an integer to float64 (\<^verbatim>\<open>float64(k)\<close>, and the implicit conversion
  of an untyped integer constant compared with a float64): the nearest number with a
  53-bit significand, ties to the even significand. Every integer of at most 64 bits is
  within the exponent range, so the result is finite.
\<close>

definition round53 :: "int \<Rightarrow> int" where
  "round53 k =
     (let a = nat \<bar>k\<bar>; e = bitlen a - 53; q = a div 2 ^ e; r = a mod 2 ^ e;
          q' = (if 2 * r > 2 ^ e \<or> (2 * r = 2 ^ e \<and> odd q) then q + 1 else q)
      in sgn k * int (q' * 2 ^ e))"

definition float64_of_int :: "int \<Rightarrow> float64" where
  "float64_of_int k = Fin (real_of_int (round53 k))"

text \<open>
  Conversion of a float64 to int64 (\<^verbatim>\<open>int64(f)\<close>) discards the fraction
  (truncation towards zero). When the truncated value is not an int64, or \<open>f\<close> is NaN or
  infinite, the Go specification makes the conversion succeed with an
  implementation-dependent value; that value is the parameter \<open>undef\<close>.
\<close>

definition trunc :: "real \<Rightarrow> int" where
  "trunc x = (if 0 \<le> x then \<lfloor>x\<rfloor> else \<lceil>x\<rceil>)"

fun int64_of_float64 :: "(float64 \<Rightarrow> int64) \<Rightarrow> float64 \<Rightarrow> int64" where
  "int64_of_float64 undef (Fin x) =
     (if MinInt64 \<le> trunc x \<and> trunc x \<le> MaxInt64 then word_of_int (trunc x)
      else undef (Fin x))"
| "int64_of_float64 undef f = undef f"

subsection \<open>Dynamically typed values and the runtime\<close>

text \<open>
  A value of type \<^verbatim>\<open>any\<close> as the JSON decoder produces it: \<^verbatim>\<open>nil\<close>, a
  \<^verbatim>\<open>bool\<close>, a \<^verbatim>\<open>float64\<close>, a \<^verbatim>\<open>json.Number\<close> (the literal text of a number),
  a \<^verbatim>\<open>string\<close>, a slice or a map.
\<close>

datatype any_value =
    VNil
  | VBool bool
  | VFloat64 float64
  | VNumber string
  | VString string
  | VSlice "any_value list"
  | VMap "(string \<times> any_value) list"

text \<open>
  The pieces of the Go runtime and standard library that the code calls and that are not
  part of the repository: \<^verbatim>\<open>strconv.ParseFloat(s, 64)\<close> and
  \<^verbatim>\<open>strconv.ParseInt(s, 10, 64)\<close> behind \<^verbatim>\<open>json.Number\<close>
  (\<open>None\<close> when they return an error), the implementation-dependent result of an
  out-of-range float64 to int64 conversion, \<^verbatim>\<open>strconv.Atoi\<close> (the text of its error, or
  the number), the quoting of the \<^verbatim>\<open>%q\<close> verb, and the floating-point unit:
  \<open>rnd\<close> takes the exact result of an arithmetic operation on finite operands, or the
  exact value of a decimal constant, to the float64 result (a finite float64, or an infinity
  when the exact value is too large in magnitude), and \<open>math_Log\<close>, \<open>math_Pow\<close> are
  \<^verbatim>\<open>math.Log\<close> and \<^verbatim>\<open>math.Pow\<close>. Nothing is assumed of them: in particular results
  are not taken to be exact.
\<close>

record runtime =
  ParseFloat :: "string \<Rightarrow> float64 option"
  ParseInt :: "string \<Rightarrow> int64 option"
  conv_undef :: "float64 \<Rightarrow> int64"
  Atoi :: "string \<Rightarrow> string + int"
  Quote :: "string \<Rightarrow> string"
  rnd :: "real \<Rightarrow> float64"
  math_Log :: "float64 \<Rightarrow> float64"
  math_Pow :: "float64 \<Rightarrow> float64 \<Rightarrow> float64"

subsection \<open>float64 arithmetic\<close>

text \<open>
  The arithmetic operators. On finite operands the result is the exact result as the
  floating-point unit rounds it, one rounding per operator (an implementation that fuses a
  multiplication with an addition is not covered). With an infinity or NaN among the
  operands, and for a division by zero, the result is the one of IEEE 754; a zero divisor
  counts as positive zero.
\<close>

fun f_neg :: "float64 \<Rightarrow> float64" where
  "f_neg NaN = NaN"
| "f_neg PInf = NInf"
| "f_neg NInf = PInf"
| "f_neg (Fin x) = Fin (- x)"

fun f_add :: "runtime \<Rightarrow> float64 \<Rightarrow> float64 \<Rightarrow> float64" where
  "f_add rt (Fin x) (Fin y) = rnd rt (x + y)"
| "f_add rt NaN _ = NaN"
| "f_add rt _ NaN = NaN"
| "f_add rt PInf NInf = NaN"
| "f_add rt NInf PInf = NaN"
| "f_add rt PInf _ = PInf"
| "f_add rt NInf _ = NInf"
| "f_add rt _ PInf = PInf"
| "f_add rt _ NInf = NInf"

definition f_sub :: "runtime \<Rightarrow> float64 \<Rightarrow> float64 \<Rightarrow> float64" where
  "f_sub rt a b = f_add rt a (f_neg b)"

text \<open>An infinity with the sign of \<open>s\<close>; NaN when \<open>s\<close> is zero.\<close>

definition signed_inf :: "real \<Rightarrow> float64" where
  "signed_inf s = (if s = 0 then NaN else if 0 < s then PInf else NInf)"

fun f_mul :: "runtime \<Rightarrow> float64 \<Rightarrow> float64 \<Rightarrow> float64" where
  "f_mul rt (Fin x) (Fin y) = rnd rt (x * y)"
| "f_mul rt NaN _ = NaN"
| "f_mul rt _ NaN = NaN"
| "f_mul rt PInf PInf = PInf"
| "f_mul rt PInf NInf = NInf"
| "f_mul rt NInf PInf = NInf"
| "f_mul rt NInf NInf = PInf"
| "f_mul rt PInf (Fin y) = signed_inf y"
| "f_mul rt NInf (Fin y) = signed_inf (- y)"
| "f_mul rt (Fin x) PInf = signed_inf x"
| "f_mul rt (Fin x) NInf = signed_inf (- x)"

fun f_div :: "runtime \<Rightarrow> float64 \<Rightarrow> float64 \<Rightarrow> float64" where
  "f_div rt (Fin x) (Fin y) = (if y = 0 then signed_inf x else rnd rt (x / y))"
| "f_div rt NaN _ = NaN"
| "f_div rt _ NaN = NaN"
| "f_div rt (Fin x) PInf = Fin 0"
| "f_div rt (Fin x) NInf = Fin 0"
| "f_div rt PInf (Fin y) = (if 0 \<le> y then PInf else NInf)"
| "f_div rt NInf (Fin y) = (if 0 \<le> y then NInf else PInf)"
| "f_div rt _ _ = NaN"

section \<open>Observations\<close>

record Observation =
  Timestamp :: int64
  WindLull :: float64
  WindAvg :: float64
  WindGust :: float64
  WindDirection :: float64
  WindSampleInterval :: float64
  StationPressure :: float64
  AirTemperature :: float64
  RelativeHumidity :: float64
  Illuminance :: float64
  UV :: float64
  SolarRadiation :: float64
  RainAccumulated :: float64
  PrecipitationType :: float64
  LightningStrikeAvgDist :: float64
  LightningStrikeCount :: float64
  Battery :: float64
  ReportInterval :: float64

definition obsSTFieldCount :: nat where
  "obsSTFieldCount = 18"

subsection \<open>The stream frame: \<^verbatim>\<open>toFloat\<close>, \<^verbatim>\<open>toInt64\<close>, \<^verbatim>\<open>ParseObservation\<close>\<close>

fun toFloat :: "runtime \<Rightarrow> any_value \<Rightarrow> float64" where
  "toFloat rt VNil = NaN"
| "toFloat rt (VFloat64 n) = n"
| "toFloat rt (VNumber s) = (case ParseFloat rt s of None \<Rightarrow> NaN | Some f \<Rightarrow> f)"
| "toFloat rt _ = NaN"

datatype timestamp_error =
    NilTimestamp
  | TimestampOutOfRange float64
  | InvalidTimestampNumber
  | InvalidTimestampType

fun toInt64 :: "runtime \<Rightarrow> any_value \<Rightarrow> timestamp_error + int64" where
  "toInt64 rt VNil = Inl NilTimestamp"
| "toInt64 rt (VFloat64 n) =
     (if f_lt n (float64_of_int MinInt64) \<or> f_gt n (float64_of_int MaxInt64)
         \<or> IsNaN n \<or> IsInf n
      then Inl (TimestampOutOfRange n)
      else Inr (int64_of_float64 (conv_undef rt) n))"
| "toInt64 rt (VNumber s) =
     (case ParseInt rt s of None \<Rightarrow> Inl InvalidTimestampNumber | Some i \<Rightarrow> Inr i)"
| "toInt64 rt _ = Inl InvalidTimestampType"

datatype parse_error =
    ArrayTooShort nat
  | ParsingTimestamp timestamp_error

definition ParseObservation :: "runtime \<Rightarrow> any_value list \<Rightarrow> parse_error + Observation" where
  "ParseObservation rt raw =
     (if length raw < obsSTFieldCount then Inl (ArrayTooShort (length raw))
      else case toInt64 rt (raw ! 0) of
        Inl err \<Rightarrow> Inl (ParsingTimestamp err)
      | Inr ts \<Rightarrow> Inr \<lparr>
          Timestamp = ts,
          WindLull = toFloat rt (raw ! 1),
          WindAvg = toFloat rt (raw ! 2),
          WindGust = toFloat rt (raw ! 3),
          WindDirection = toFloat rt (raw ! 4),
          WindSampleInterval = toFloat rt (raw ! 5),
          StationPressure = toFloat rt (raw ! 6),
          AirTemperature = toFloat rt (raw ! 7),
          RelativeHumidity = toFloat rt (raw ! 8),
          Illuminance = toFloat rt (raw ! 9),
          UV = toFloat rt (raw ! 10),
          SolarRadiation = toFloat rt (raw ! 11),
          RainAccumulated = toFloat rt (raw ! 12),
          PrecipitationType = toFloat rt (raw ! 13),
          LightningStrikeAvgDist = toFloat rt (raw ! 14),
          LightningStrikeCount = toFloat rt (raw ! 15),
          Battery = toFloat rt (raw ! 16),
          ReportInterval = toFloat rt (raw ! 17) \<rparr>)"

subsection \<open>The poll response: \<^verbatim>\<open>deref\<close>, \<^verbatim>\<open>restObsToObservation\<close>\<close>

text \<open>
  \<^verbatim>\<open>restObs\<close>: every field is a \<^verbatim>\<open>*float64\<close>, \<open>None\<close> for the nil pointer. The
  fields carry the names of their JSON keys.
\<close>

record restObs =
  timestamp :: "float64 option"
  wind_lull :: "float64 option"
  wind_avg :: "float64 option"
  wind_gust :: "float64 option"
  wind_direction :: "float64 option"
  station_pressure :: "float64 option"
  air_temperature :: "float64 option"
  relative_humidity :: "float64 option"
  illuminance :: "float64 option"
  uv :: "float64 option"
  solar_radiation :: "float64 option"
  rain_accumulated :: "float64 option"
  precip_type :: "float64 option"
  lightning_strike_avg_distance :: "float64 option"
  lightning_strike_count :: "float64 option"
  battery :: "float64 option"
  report_interval :: "float64 option"

fun deref :: "float64 option \<Rightarrow> float64" where
  "deref None = Fin 0"
| "deref (Some v) = v"

text \<open>
  The composite literal leaves \<^verbatim>\<open>Timestamp\<close> and \<^verbatim>\<open>WindSampleInterval\<close> at their
  zero values; the timestamp is then overwritten under the guard.
\<close>

definition restObsToObservation :: "runtime \<Rightarrow> restObs \<Rightarrow> Observation" where
  "restObsToObservation rt ro =
     (let obs = \<lparr>
          Timestamp = 0,
          WindLull = deref (wind_lull ro),
          WindAvg = deref (wind_avg ro),
          WindGust = deref (wind_gust ro),
          WindDirection = deref (wind_direction ro),
          WindSampleInterval = Fin 0,
          StationPressure = deref (station_pressure ro),
          AirTemperature = deref (air_temperature ro),
          RelativeHumidity = deref (relative_humidity ro),
          Illuminance = deref (illuminance ro),
          UV = deref (uv ro),
          SolarRadiation = deref (solar_radiation ro),
          RainAccumulated = deref (rain_accumulated ro),
          PrecipitationType = deref (precip_type ro),
          LightningStrikeAvgDist = deref (lightning_strike_avg_distance ro),
          LightningStrikeCount = deref (lightning_strike_count ro),
          Battery = deref (battery ro),
          ReportInterval = deref (report_interval ro) \<rparr>
      in case timestamp ro of
           None \<Rightarrow> obs
         | Some ts \<Rightarrow>
             if f_ge ts (Fin 0) \<and> f_le ts (float64_of_int MaxInt64)
             then obs\<lparr>Timestamp := int64_of_float64 (conv_undef rt) ts\<rparr>
             else obs)"

section \<open>Derived metrics\<close>

text \<open>
  A decimal constant that is a float64 number (0, 10.0, 27.0, 32.0, 40.0, 100.0) is written
  as that number; for any other (17.27, 237.7, 3.6, 4.8, ...) the compiler takes the
  float64 nearest to it, which is \<open>rnd\<close> of the constant.
\<close>

definition DewPoint :: "runtime \<Rightarrow> float64 \<Rightarrow> float64 \<Rightarrow> float64" where
  "DewPoint rt tempC humidityPct =
     (if IsNaN tempC \<or> IsNaN humidityPct \<or> f_le humidityPct (Fin 0) then NaN
      else
        let a = rnd rt 17.27;
            b = rnd rt 237.7;
            gamma = f_add rt (f_div rt (f_mul rt a tempC) (f_add rt b tempC))
                          (math_Log rt (f_div rt humidityPct (Fin 100.0)))
        in f_div rt (f_mul rt b gamma) (f_sub rt a gamma))"

definition FeelsLike :: "runtime \<Rightarrow> float64 \<Rightarrow> float64 \<Rightarrow> float64 \<Rightarrow> float64" where
  "FeelsLike rt tempC humidityPct windMps =
     (if IsNaN tempC then NaN
      else
        let windKmh = f_mul rt windMps (rnd rt 3.6) in
        if f_lt tempC (Fin 10.0) \<and> f_gt windKmh (rnd rt 4.8) then
          let v16 = math_Pow rt windKmh (rnd rt 0.16) in
          f_add rt (f_sub rt (f_add rt (rnd rt 13.12) (f_mul rt (rnd rt 0.6215) tempC))
                             (f_mul rt (rnd rt 11.37) v16))
                   (f_mul rt (f_mul rt (rnd rt 0.3965) tempC) v16)
        else if f_ge tempC (Fin 27.0) \<and> f_ge humidityPct (Fin 40.0) then
          let tf = f_add rt (f_mul rt tempC (rnd rt 1.8)) (Fin 32.0);
              rh = humidityPct;
              hi =
                f_sub rt (f_add rt (f_add rt (f_sub rt (f_sub rt (f_sub rt (f_add rt (f_add rt
                  (rnd rt (- 42.379))
                  (f_mul rt (rnd rt 2.04901523) tf))
                  (f_mul rt (rnd rt 10.14333127) rh))
                  (f_mul rt (f_mul rt (rnd rt 0.22475541) tf) rh))
                  (f_mul rt (f_mul rt (rnd rt 0.00683783) tf) tf))
                  (f_mul rt (f_mul rt (rnd rt 0.05481717) rh) rh))
                  (f_mul rt (f_mul rt (f_mul rt (rnd rt 0.00122874) tf) tf) rh))
                  (f_mul rt (f_mul rt (f_mul rt (rnd rt 0.00085282) tf) rh) rh))
                  (f_mul rt (f_mul rt (f_mul rt (f_mul rt (rnd rt 0.00000199) tf) tf) rh) rh)
          in f_div rt (f_sub rt hi (Fin 32.0)) (rnd rt 1.8)
        else tempC)"

section \<open>The snapshot store\<close>

text \<open>
  \<^verbatim>\<open>Collector\<close>. Every method takes the lock for its whole body, so a method is one
  atomic step on the record; the mutex itself is not part of the state.
\<close>

record Collector =
  obs :: Observation
  hasObs :: bool
  connected :: bool
  reconnects :: float64
  scrapeErrors :: float64
  rainStart :: float64
  stationID :: string
  stationName :: string

definition zero_Observation :: Observation where
  "zero_Observation = \<lparr>
     Timestamp = 0, WindLull = Fin 0, WindAvg = Fin 0, WindGust = Fin 0,
     WindDirection = Fin 0, WindSampleInterval = Fin 0, StationPressure = Fin 0,
     AirTemperature = Fin 0, RelativeHumidity = Fin 0, Illuminance = Fin 0, UV = Fin 0,
     SolarRadiation = Fin 0, RainAccumulated = Fin 0, PrecipitationType = Fin 0,
     LightningStrikeAvgDist = Fin 0, LightningStrikeCount = Fin 0, Battery = Fin 0,
     ReportInterval = Fin 0 \<rparr>"

definition NewCollector :: "string \<Rightarrow> string \<Rightarrow> Collector" where
  "NewCollector sid sname = \<lparr>
     obs = zero_Observation, hasObs = False, connected = False, reconnects = Fin 0,
     scrapeErrors = Fin 0, rainStart = Fin 0, stationID = sid, stationName = sname \<rparr>"

definition UpdateObservation :: "Observation \<Rightarrow> Collector \<Rightarrow> Collector" where
  "UpdateObservation ob c = c\<lparr>obs := ob, hasObs := True\<rparr>"

definition SetConnected :: "bool \<Rightarrow> Collector \<Rightarrow> Collector" where
  "SetConnected b c = c\<lparr>connected := b\<rparr>"

text \<open>The two counters are float64 fields: \<^verbatim>\<open>c.reconnects++\<close> is a float64 addition.\<close>

definition IncrReconnects :: "runtime \<Rightarrow> Collector \<Rightarrow> Collector" where
  "IncrReconnects rt c = c\<lparr>reconnects := f_add rt (reconnects c) (Fin 1)\<rparr>"

definition SetRainStart :: "float64 \<Rightarrow> Collector \<Rightarrow> Collector" where
  "SetRainStart epoch c = c\<lparr>rainStart := epoch\<rparr>"

definition IncrScrapeErrors :: "runtime \<Rightarrow> Collector \<Rightarrow> Collector" where
  "IncrScrapeErrors rt c = c\<lparr>scrapeErrors := f_add rt (scrapeErrors c) (Fin 1)\<rparr>"

definition HasObservation :: "Collector \<Rightarrow> bool" where
  "HasObservation c = hasObs c"

definition isConnected :: "Collector \<Rightarrow> bool" where
  "isConnected c = connected c"

subsection \<open>\<^verbatim>\<open>Collect\<close>\<close>

datatype Desc =
    descWindLull | descWindAvg | descWindGust | descWindDirection | descStationPressure
  | descAirTemperature | descRelativeHumidity | descIlluminance | descUV
  | descSolarRadiation | descRainAccumulated | descPrecipitationType
  | descLightningStrikeAvgDist | descLightningStrikeCount | descBattery
  | descDewPoint | descFeelsLike | descRainStartEpoch
  | descUp | descReconnects | descLastObservation | descScrapeErrors

datatype ValueType = GaugeValue | CounterValue

text \<open>
  \<^verbatim>\<open>utf8.ValidString\<close> on the bytes of a string: every character is a single byte below
  \<^verbatim>\<open>0x80\<close> or a well-formed sequence of two to four bytes (no overlong form, no
  surrogate, nothing above \<^verbatim>\<open>U+10FFFF\<close>).
\<close>

definition continuation :: "char \<Rightarrow> bool" where
  "continuation c = (0x80 \<le> (of_char c :: nat) \<and> (of_char c :: nat) \<le> 0xBF)"

definition second_byte :: "nat \<Rightarrow> char \<Rightarrow> bool" where
  "second_byte b c =
     ((if b = 0xE0 then 0xA0 else if b = 0xF0 then 0x90 else 0x80) \<le> (of_char c :: nat) \<and>
      (of_char c :: nat) \<le> (if b = 0xED then 0x9F else if b = 0xF4 then 0x8F else 0xBF))"

fun ValidString :: "string \<Rightarrow> bool" where
  "ValidString [] = True"
| "ValidString (c # cs) =
     (let b = (of_char c :: nat) in
      if b < 0x80 then ValidString cs
      else if 0xC2 \<le> b \<and> b \<le> 0xDF then
        (case cs of c1 # r \<Rightarrow> continuation c1 \<and> ValidString r | _ \<Rightarrow> False)
      else if 0xE0 \<le> b \<and> b \<le> 0xEF then
        (case cs of c1 # c2 # r \<Rightarrow> second_byte b c1 \<and> continuation c2 \<and> ValidString r
         | _ \<Rightarrow> False)
      else if 0xF0 \<le> b \<and> b \<le> 0xF4 then
        (case cs of c1 # c2 # c3 # r \<Rightarrow>
           second_byte b c1 \<and> continuation c2 \<and> continuation c3 \<and> ValidString r
         | _ \<Rightarrow> False)
      else False)"

text \<open>
  A metric sent on the channel. \<^verbatim>\<open>prometheus.MustNewConstMetric(desc, valueType, value,
  labelValues...)\<close> panics when the constructor reports an error: when the number of label
  values is not the number of labels of the descriptor (two, for every descriptor of this
  collector) or a label value is not valid UTF-8. \<open>None\<close> is the panic.
\<close>

datatype Metric = ConstMetric Desc ValueType float64 "string list"

fun metric_desc :: "Metric \<Rightarrow> Desc" where
  "metric_desc (ConstMetric d vt v lv) = d"

fun metric_value :: "Metric \<Rightarrow> float64" where
  "metric_value (ConstMetric d vt v lv) = v"

definition MustNewConstMetric ::
    "Desc \<Rightarrow> ValueType \<Rightarrow> float64 \<Rightarrow> string list \<Rightarrow> Metric option" where
  "MustNewConstMetric desc vt v lv =
     (if length lv = 2 \<and> list_all ValidString lv then Some (ConstMetric desc vt v lv)
      else None)"

text \<open>
  \<^verbatim>\<open>ch <- m\<close>: the metrics sent so far with one more, unless constructing \<open>m\<close> has
  panicked; \<open>then_do\<close> runs the next statement on the metrics sent so far, unless a
  statement before it has panicked.
\<close>

definition send :: "Metric option \<Rightarrow> Metric list \<Rightarrow> Metric list option" where
  "send m ch = (case m of None \<Rightarrow> None | Some x \<Rightarrow> Some (ch @ [x]))"

definition then_do ::
    "Metric list option \<Rightarrow> (Metric list \<Rightarrow> Metric list option) \<Rightarrow> Metric list option" where
  "then_do x f = (case x of None \<Rightarrow> None | Some ch \<Rightarrow> f ch)"

definition emitGauge ::
    "string list \<Rightarrow> Desc \<Rightarrow> float64 \<Rightarrow> Metric list \<Rightarrow> Metric list option" where
  "emitGauge lv desc val ch =
     (if \<not> IsNaN val then send (MustNewConstMetric desc GaugeValue val lv) ch else Some ch)"

text \<open>
  \<^verbatim>\<open>Collector.Collect\<close>: the metrics it sends on the channel, in order, or \<open>None\<close>
  when it panics.
\<close>

definition Collector_Collect :: "runtime \<Rightarrow> Collector \<Rightarrow> Metric list option" where
  "Collector_Collect rt c =
     (let ob = obs c;
          lv = [stationID c, stationName c];
          connVal = (if connected c then Fin 1.0 else Fin 0.0)
      in
      then_do (send (MustNewConstMetric descUp GaugeValue connVal lv) []) (\<lambda>ch.
      then_do (send (MustNewConstMetric descReconnects CounterValue (reconnects c) lv) ch) (\<lambda>ch.
      then_do (send (MustNewConstMetric descScrapeErrors CounterValue (scrapeErrors c) lv) ch) (\<lambda>ch.
      then_do (if hasObs c
               then send (MustNewConstMetric descLastObservation GaugeValue
                            (float64_of_int (sint (Timestamp ob))) lv) ch
               else Some ch) (\<lambda>ch.
      if \<not> hasObs c then Some ch
      else
      then_do (emitGauge lv descWindLull (WindLull ob) ch) (\<lambda>ch.
      then_do (emitGauge lv descWindAvg (WindAvg ob) ch) (\<lambda>ch.
      then_do (emitGauge lv descWindGust (WindGust ob) ch) (\<lambda>ch.
      then_do (emitGauge lv descWindDirection (WindDirection ob) ch) (\<lambda>ch.
      then_do (emitGauge lv descStationPressure (StationPressure ob) ch) (\<lambda>ch.
      then_do (emitGauge lv descAirTemperature (AirTemperature ob) ch) (\<lambda>ch.
      then_do (emitGauge lv descRelativeHumidity (RelativeHumidity ob) ch) (\<lambda>ch.
      then_do (emitGauge lv descIlluminance (Illuminance ob) ch) (\<lambda>ch.
      then_do (emitGauge lv descUV (UV ob) ch) (\<lambda>ch.
      then_do (emitGauge lv descSolarRadiation (SolarRadiation ob) ch) (\<lambda>ch.
      then_do (emitGauge lv descRainAccumulated (RainAccumulated ob) ch) (\<lambda>ch.
      then_do (emitGauge lv descPrecipitationType (PrecipitationType ob) ch) (\<lambda>ch.
      then_do (emitGauge lv descLightningStrikeAvgDist (LightningStrikeAvgDist ob) ch) (\<lambda>ch.
      then_do (emitGauge lv descLightningStrikeCount (LightningStrikeCount ob) ch) (\<lambda>ch.
      then_do (emitGauge lv descBattery (Battery ob) ch) (\<lambda>ch.
      then_do (emitGauge lv descDewPoint
                 (DewPoint rt (AirTemperature ob) (RelativeHumidity ob)) ch) (\<lambda>ch.
      then_do (emitGauge lv descFeelsLike
                 (FeelsLike rt (AirTemperature ob) (RelativeHumidity ob) (WindAvg ob)) ch) (\<lambda>ch.
      if f_gt (rainStart c) (Fin 0) then emitGauge lv descRainStartEpoch (rainStart c) ch
      else Some ch))))))))))))))))))))))"

section \<open>Token redaction\<close>

text \<open>
  \<^verbatim>\<open>strings.ReplaceAll(s, old, new)\<close>: the occurrences of \<open>old\<close> are found from the left
  and do not overlap. (For an empty \<open>old\<close>, which \<^verbatim>\<open>redactToken\<close> never passes, the
  library inserts \<open>new\<close> around every character.)
\<close>

function ReplaceAll :: "string \<Rightarrow> string \<Rightarrow> string \<Rightarrow> string" where
  "ReplaceAll s old new =
     (if old = [] then new @ concat (map (\<lambda>c. c # new) s)
      else if s = [] then []
      else if prefix old s then new @ ReplaceAll (drop (length old) s) old new
      else hd s # ReplaceAll (tl s) old new)"
  by pat_completeness auto
termination
  by (relation "measure (\<lambda>(s, old, new). length s)") auto

declare ReplaceAll.simps [simp del]

definition redactToken :: "string \<Rightarrow> string \<Rightarrow> string" where
  "redactToken s token = (if token = [] then s else ReplaceAll s token ''[REDACTED]'')"

text \<open>\<^verbatim>\<open>strings.Contains(s, substr)\<close>.\<close>

definition Contains :: "string \<Rightarrow> string \<Rightarrow> bool" where
  "Contains s substr = sublist substr s"

section \<open>Observable actions\<close>

text \<open>
  What a run does besides updating the store, in order: a log record (level, message and
  the attributes whose values are modelled), a timer started with \<^verbatim>\<open>time.After\<close>, and a
  request issued by \<^verbatim>\<open>FetchObservation\<close>.
\<close>

datatype Level = LevelInfo | LevelWarn | LevelError

datatype Attr = AttrString string | AttrInt int | AttrFloat float64 | AttrDuration int

datatype Action = Log Level string "(string \<times> Attr) list" | After int | Fetch

record World =
  collector :: Collector
  actions :: "Action list"

definition emit :: "Action \<Rightarrow> 'a World_scheme \<Rightarrow> 'a World_scheme" where
  "emit a s = s\<lparr>actions := actions s @ [a]\<rparr>"

definition on_collector :: "(Collector \<Rightarrow> Collector) \<Rightarrow> 'a World_scheme \<Rightarrow> 'a World_scheme" where
  "on_collector f s = s\<lparr>collector := f (collector s)\<rparr>"

text \<open>Durations and clock readings are counted in nanoseconds.\<close>

definition Second :: int where
  "Second = 1000000000"

definition Minute :: int where
  "Minute = 60 * Second"

section \<open>The stream client\<close>

text \<open>
  \<^verbatim>\<open>Client\<close>. Its pointer to the shared \<^verbatim>\<open>Collector\<close> is not a field here: the
  store it points to is the \<open>collector\<close> of the state the functions pass along.
\<close>

record Client =
  token :: string
  deviceID :: string
  wsURL :: string
  parseErrors :: int64

record StreamState = World +
  client :: Client

text \<open>
  A message read from the connection, by what the three decoders make of its bytes:
  the envelope's type (\<open>None\<close> when \<^verbatim>\<open>json.Unmarshal\<close> into \<^verbatim>\<open>WSMessage\<close> fails), the
  \<^verbatim>\<open>obs\<close> array of \<^verbatim>\<open>ObsSTMessage\<close> and the \<^verbatim>\<open>evt\<close> array of \<^verbatim>\<open>StrikeEvent\<close> and
  \<^verbatim>\<open>PrecipEvent\<close> (\<open>None\<close> when that decoding fails).
\<close>

record Message =
  msg_type :: "string option"
  msg_obs :: "any_value list list option"
  msg_evt :: "any_value list option"

text \<open>The outcome of one \<^verbatim>\<open>conn.Read\<close>: an error (a timeout, a closed connection, a
  cancelled context) with its text, or a message.\<close>

datatype ReadResult = ReadError string | ReadMessage Message

definition handleObsST :: "runtime \<Rightarrow> Message \<Rightarrow> StreamState \<Rightarrow> StreamState" where
  "handleObsST rt m s =
     (case msg_obs m of
        None \<Rightarrow> emit (Log LevelError ''error parsing obs_st'' []) s
      | Some os \<Rightarrow>
          if length os = 0 then emit (Log LevelWarn ''obs_st with empty obs array'' []) s
          else case ParseObservation rt (os ! 0) of
            Inl err \<Rightarrow> emit (Log LevelError ''error parsing observation'' []) s
          | Inr ob \<Rightarrow>
              emit (Log LevelInfo ''observation updated''
                      [(''air_temp_c'', AttrFloat (AirTemperature ob)),
                       (''humidity_pct'', AttrFloat (RelativeHumidity ob)),
                       (''wind_mps'', AttrFloat (WindAvg ob)),
                       (''pressure_mb'', AttrFloat (StationPressure ob))])
                (on_collector (UpdateObservation ob) s))"

definition handleStrike :: "runtime \<Rightarrow> Message \<Rightarrow> StreamState \<Rightarrow> StreamState" where
  "handleStrike rt m s =
     (case msg_evt m of
        None \<Rightarrow> emit (Log LevelError ''error parsing evt_strike'' []) s
      | Some evt \<Rightarrow>
          if length evt \<ge> 3 then
            let dist = toFloat rt (evt ! 1);
                energy = toFloat rt (evt ! 2)
            in if \<not> IsNaN dist
               then emit (Log LevelInfo ''lightning strike detected''
                            [(''distance_km'', AttrFloat dist), (''energy'', AttrFloat energy)]) s
               else s
          else s)"

definition handlePrecip :: "runtime \<Rightarrow> Message \<Rightarrow> StreamState \<Rightarrow> StreamState" where
  "handlePrecip rt m s =
     (case msg_evt m of
        None \<Rightarrow> emit (Log LevelError ''error parsing evt_precip'' []) s
      | Some evt \<Rightarrow>
          if length evt \<ge> 1 then
            let epoch = toFloat rt (evt ! 0)
            in if \<not> IsNaN epoch
               then emit (Log LevelInfo ''rain start event'' [(''epoch'', AttrFloat epoch)])
                      (on_collector (SetRainStart epoch) s)
               else s
          else s)"

text \<open>The \<^verbatim>\<open>switch envelope.Type\<close> of the read loop.\<close>

definition dispatch :: "runtime \<Rightarrow> string \<Rightarrow> Message \<Rightarrow> StreamState \<Rightarrow> StreamState" where
  "dispatch rt t m s =
     (if t = ''obs_st'' then handleObsST rt m s
      else if t = ''evt_strike'' then handleStrike rt m s
      else if t = ''evt_precip'' then handlePrecip rt m s
      else if t = ''ack'' \<or> t = ''connection_opened''
        then emit (Log LevelInfo ''received control message'' [(''type'', AttrString t)]) s
      else emit (Log LevelWarn ''ignoring unknown message type'' [(''type'', AttrString t)]) s)"

text \<open>
  The branch of the read loop for a message whose envelope does not parse:
  \<^verbatim>\<open>parseErrors.Add(1)\<close> (an int64, which wraps), then the rate-limited warning. The
  remainder \<^verbatim>\<open>count%100\<close> of Go truncates towards zero.
\<close>

definition unparseable :: "StreamState \<Rightarrow> StreamState" where
  "unparseable s =
     (let count = parseErrors (client s) + 1;
          s1 = s\<lparr>client := (client s)\<lparr>parseErrors := count\<rparr>\<rparr>
      in if count = 1 \<or> sint count smod 100 = 0
         then emit (Log LevelWarn ''ignoring unparseable message''
                      [(''total_parse_errors'', AttrInt (sint count))]) s1
         else s1)"

text \<open>
  \<^verbatim>\<open>readLoop\<close> over the outcomes of its successive reads. It returns at the first read
  error; the result is \<open>None\<close> when the outcomes given are used up and the loop is
  waiting in the next read.
\<close>

fun readLoop :: "runtime \<Rightarrow> StreamState \<Rightarrow> ReadResult list \<Rightarrow> StreamState \<times> string option" where
  "readLoop rt s [] = (s, None)"
| "readLoop rt s (ReadError e # rs) =
     (s, Some (''read: '' @ redactToken e (token (client s))))"
| "readLoop rt s (ReadMessage m # rs) =
     (case msg_type m of
        None \<Rightarrow> readLoop rt (unparseable s) rs
      | Some t \<Rightarrow> readLoop rt (dispatch rt t m s) rs)"

text \<open>
  One connection attempt, by what the network does: the error of \<^verbatim>\<open>websocket.Dial\<close>
  and of the \<^verbatim>\<open>conn.Write\<close> of the subscription (\<open>None\<close> on success) and the outcomes
  of the reads. \<^verbatim>\<open>json.Marshal\<close> of the subscription map cannot fail.
\<close>

record Session =
  dial_err :: "string option"
  write_err :: "string option"
  reads :: "ReadResult list"

definition connectAndRead :: "runtime \<Rightarrow> StreamState \<Rightarrow> Session \<Rightarrow> StreamState \<times> string option" where
  "connectAndRead rt s ss =
     (case dial_err ss of
        Some e \<Rightarrow> (s, Some (''websocket dial failed: '' @ redactToken e (token (client s))))
      | None \<Rightarrow>
          (case Atoi rt (deviceID (client s)) of
             Inl e \<Rightarrow>
               (s, Some (''invalid device_id '' @ Quote rt (deviceID (client s)) @ '': '' @ e))
           | Inr deviceIDNum \<Rightarrow>
               (case write_err ss of
                  Some e \<Rightarrow>
                    (s, Some (''send listen_start: '' @ redactToken e (token (client s))))
                | None \<Rightarrow>
                    let s1 = on_collector (SetConnected True) s;
                        s2 = emit (Log LevelInfo ''websocket connected''
                                     [(''device_id'', AttrString (deviceID (client s)))]) s1;
                        s3 = s2\<lparr>client := (client s2)\<lparr>parseErrors := 0\<rparr>\<rparr>
                    in readLoop rt s3 (reads ss))))"

text \<open>
  One iteration of \<^verbatim>\<open>Run\<close>, by what happens around the connection attempt: whether the
  context is cancelled when \<^verbatim>\<open>connectAndRead\<close> has returned, the value of
  \<^verbatim>\<open>time.Since(start)\<close>, and whether the \<^verbatim>\<open>select\<close> receives from \<^verbatim>\<open>ctx.Done()\<close>
  rather than from the timer.
\<close>

record Cycle =
  session :: Session
  ctx_err :: bool
  since_start :: int
  ctx_done :: bool

definition maxBackoff :: int where
  "maxBackoff = 60 * Second"

text \<open>
  The loop of \<^verbatim>\<open>Run\<close> from a given backoff. The result is the state, the backoff and
  whether \<^verbatim>\<open>Run\<close> has returned; it has not when the cycles given are used up, or when a
  connection is still being read.
\<close>

fun Run_loop :: "runtime \<Rightarrow> int \<Rightarrow> StreamState \<Rightarrow> Cycle list \<Rightarrow> StreamState \<times> int \<times> bool" where
  "Run_loop rt backoff s [] = (s, backoff, False)"
| "Run_loop rt backoff s (cy # cys) =
     (case connectAndRead rt s (session cy) of
        (s1, None) \<Rightarrow> (s1, backoff, False)
      | (s1, Some err) \<Rightarrow>
          if ctx_err cy then (s1, backoff, True)
          else
            let s2 = on_collector (IncrReconnects rt) (on_collector (SetConnected False) s1);
                backoff1 = (if since_start cy > 2 * Minute then Second else backoff);
                s3 = emit (Log LevelWarn ''websocket disconnected''
                             [(''error'', AttrString err),
                              (''reconnect_in'', AttrDuration backoff1)]) s2;
                s4 = emit (After backoff1) s3
            in if ctx_done cy then (s4, backoff1, True)
               else
                 let backoff2 = backoff1 * 2;
                     backoff3 = (if backoff2 > maxBackoff then maxBackoff else backoff2)
                 in Run_loop rt backoff3 s4 cys)"

definition Run :: "runtime \<Rightarrow> StreamState \<Rightarrow> Cycle list \<Rightarrow> StreamState \<times> int \<times> bool" where
  "Run rt s cys = Run_loop rt Second s cys"

section \<open>The polling fallback\<close>

text \<open>
  \<^verbatim>\<open>RESTClient\<close>, without its HTTP client (whose exchanges are given from outside) and
  its pointer to the shared store.
\<close>

record RESTClient =
  token :: string
  stationID :: string
  baseURL :: string

text \<open>
  What the HTTP exchange of one fetch does: \<^verbatim>\<open>http.NewRequestWithContext\<close> fails, or
  \<^verbatim>\<open>httpClient.Do\<close> fails, or a response arrives with its status code, its body and what
  the JSON decoder makes of the body (an error text, or the \<^verbatim>\<open>obs\<close> list).
\<close>

datatype HTTPResult =
    RequestError string
  | DoError string
  | Responded nat string "string + restObs list"

text \<open>The URL of a fetch, as \<^verbatim>\<open>FetchObservation\<close> formats it.\<close>

definition fetch_url :: "RESTClient \<Rightarrow> string" where
  "fetch_url r =
     baseURL r @ ''/observations/station/'' @ RESTClient.stationID r @ ''?token=''
       @ RESTClient.token r"

text \<open>The decimal digits of a number, for the \<^verbatim>\<open>%d\<close> verb.\<close>

fun decimal :: "nat \<Rightarrow> string" where
  "decimal n =
     (if n < 10 then [char_of (48 + n)] else decimal (n div 10) @ [char_of (48 + n mod 10)])"

declare decimal.simps [simp del]

definition FetchObservation :: "runtime \<Rightarrow> RESTClient \<Rightarrow> HTTPResult \<Rightarrow> string + Observation" where
  "FetchObservation rt r h =
     (case h of
        RequestError e \<Rightarrow> Inl (''creating request: '' @ e)
      | DoError e \<Rightarrow> Inl (''fetching observations: '' @ redactToken e (RESTClient.token r))
      | Responded status body decoded \<Rightarrow>
          if status \<noteq> 200
          then Inl (''unexpected status '' @ decimal status @ '': '' @ take 512 body)
          else case decoded of
            Inl e \<Rightarrow> Inl (''decoding response: '' @ e)
          | Inr os \<Rightarrow>
              if length os = 0 then Inl ''no observations in response''
              else Inr (restObsToObservation rt (os ! 0)))"

text \<open>
  \<^verbatim>\<open>Time.Sub\<close>, the difference of two clock readings as a \<^verbatim>\<open>Duration\<close>: it saturates at
  the ends of the int64 range.
\<close>

definition Sub :: "int \<Rightarrow> int \<Rightarrow> int" where
  "Sub t u = max MinInt64 (min MaxInt64 (t - u))"

record FallbackState = World +
  disconnectedSince :: "int option"

text \<open>
  A tick of the ticker, by what surrounds it: the writes of the stream client to the shared
  store since the previous tick, the reading of \<^verbatim>\<open>time.Now()\<close>, the later reading of
  the clock inside \<^verbatim>\<open>time.Since\<close>, and what the HTTP exchange does if a fetch is made.
\<close>

record Tick =
  stream :: "Collector \<Rightarrow> Collector"
  now :: int
  since :: int
  http :: HTTPResult

text \<open>The body of the loop of \<^verbatim>\<open>RunFallback\<close> for one tick.\<close>

definition fallback_tick ::
    "runtime \<Rightarrow> RESTClient \<Rightarrow> int \<Rightarrow> FallbackState \<Rightarrow> Tick \<Rightarrow> FallbackState" where
  "fallback_tick rt r disconnectThreshold s0 tk =
     (let s = on_collector (stream tk) s0 in
      if isConnected (collector s) then s\<lparr>disconnectedSince := None\<rparr>
      else case disconnectedSince s of
        None \<Rightarrow> s\<lparr>disconnectedSince := Some (now tk)\<rparr>
      | Some t0 \<Rightarrow>
          if Sub (since tk) t0 < disconnectThreshold then s
          else
            let s1 = emit (Log LevelWarn ''REST fallback activated, polling for observations'' []) s;
                s2 = emit Fetch s1
            in case FetchObservation rt r (http tk) of
                 Inl err \<Rightarrow>
                   emit (Log LevelError ''REST fallback error'' [(''error'', AttrString err)]) s2
               | Inr ob \<Rightarrow>
                   emit (Log LevelInfo ''REST fallback: observation updated''
                           [(''air_temp_c'', AttrFloat (AirTemperature ob))])
                     (on_collector (UpdateObservation ob) s2))"

text \<open>
  \<^verbatim>\<open>RunFallback\<close> over the ticks that arrive before the context is cancelled.
  \<^verbatim>\<open>time.NewTicker\<close> panics on a non-positive interval: the result is then \<open>None\<close>.
\<close>

definition RunFallback ::
    "runtime \<Rightarrow> RESTClient \<Rightarrow> int \<Rightarrow> int \<Rightarrow> FallbackState \<Rightarrow> Tick list \<Rightarrow> FallbackState option" where
  "RunFallback rt r disconnectThreshold pollInterval s tks =
     (if pollInterval \<le> 0 then None
      else Some (foldl (fallback_tick rt r disconnectThreshold) s tks))"

section \<open>Reference formulas and example inputs\<close>

text \<open>
  The formulas of the derived metrics as the specification words them, read in float64
  arithmetic from left to right: the Magnus approximation of the dew point, the
  Environment Canada wind chill and the NOAA heat-index regression (in Fahrenheit,
  converted back to Celsius).
\<close>

definition magnus_gamma :: "runtime \<Rightarrow> float64 \<Rightarrow> float64 \<Rightarrow> float64" where
  "magnus_gamma rt tempC rhPct =
     f_add rt (f_div rt (f_mul rt (rnd rt 17.27) tempC) (f_add rt (rnd rt 237.7) tempC))
       (math_Log rt (f_div rt rhPct (Fin 100)))"

definition magnus :: "runtime \<Rightarrow> float64 \<Rightarrow> float64 \<Rightarrow> float64" where
  "magnus rt tempC rhPct =
     f_div rt (f_mul rt (rnd rt 237.7) (magnus_gamma rt tempC rhPct))
       (f_sub rt (rnd rt 17.27) (magnus_gamma rt tempC rhPct))"




text \<open>
  The wind speed in km/h and the two conditions that select a tier of the feels-like
  temperature.
\<close>

definition windKmh :: "runtime \<Rightarrow> float64 \<Rightarrow> float64" where
  "windKmh rt windMps = f_mul rt windMps (rnd rt 3.6)"



text \<open>
  A floating-point unit is accurate here when, for exact values of magnitude between
  \<open>1/1000\<close> and 1000, the rounded result is finite and differs from the exact value by
  at most one part in \<open>10\<^sup>9\<close>, and the logarithm of a float64 between \<open>1/2\<close> and 1
  is finite and within \<open>10\<^sup>-\<^sup>9\<close> of the natural logarithm. Rounding to the nearest
  float64 is within one part in \<open>2\<^sup>5\<^sup>3\<close> on that range, and so accurate.
\<close>

definition accurate :: "runtime \<Rightarrow> bool" where
  "accurate rt =
     ((\<forall>x. 1 / 1000 \<le> \<bar>x\<bar> \<and> \<bar>x\<bar> \<le> 1000 \<longrightarrow>
          (\<exists>y. rnd rt x = Fin y \<and> \<bar>y - x\<bar> \<le> \<bar>x\<bar> / 10 ^ 9)) \<and>
      (\<forall>x. 1 / 2 \<le> x \<and> x \<le> 1 \<longrightarrow>
          (\<exists>y. math_Log rt (Fin x) = Fin y \<and> \<bar>y - ln x\<bar> \<le> 1 / 10 ^ 9)))"

text \<open>
  The gauges of an observation with the values \<^verbatim>\<open>Collect\<close> passes to \<^verbatim>\<open>emitGauge\<close>,
  the three health metrics, whether both label values are valid UTF-8, the metrics sent
  (none when \<^verbatim>\<open>Collect\<close> panics), and whether a descriptor is among them.
\<close>

definition gauge_table :: "runtime \<Rightarrow> Collector \<Rightarrow> (Desc \<times> float64) list" where
  "gauge_table rt c =
     [(descWindLull, WindLull (obs c)),
      (descWindAvg, WindAvg (obs c)),
      (descWindGust, WindGust (obs c)),
      (descWindDirection, WindDirection (obs c)),
      (descStationPressure, StationPressure (obs c)),
      (descAirTemperature, AirTemperature (obs c)),
      (descRelativeHumidity, RelativeHumidity (obs c)),
      (descIlluminance, Illuminance (obs c)),
      (descUV, UV (obs c)),
      (descSolarRadiation, SolarRadiation (obs c)),
      (descRainAccumulated, RainAccumulated (obs c)),
      (descPrecipitationType, PrecipitationType (obs c)),
      (descLightningStrikeAvgDist, LightningStrikeAvgDist (obs c)),
      (descLightningStrikeCount, LightningStrikeCount (obs c)),
      (descBattery, Battery (obs c)),
      (descDewPoint, DewPoint rt (AirTemperature (obs c)) (RelativeHumidity (obs c))),
      (descFeelsLike,
         FeelsLike rt (AirTemperature (obs c)) (RelativeHumidity (obs c)) (WindAvg (obs c)))]"

definition health_metrics :: "Collector \<Rightarrow> Metric list" where
  "health_metrics c =
     [ConstMetric descUp GaugeValue (if connected c then Fin 1 else Fin 0)
        [Collector.stationID c, stationName c],
      ConstMetric descReconnects CounterValue (reconnects c)
        [Collector.stationID c, stationName c],
      ConstMetric descScrapeErrors CounterValue (scrapeErrors c)
        [Collector.stationID c, stationName c]]"

definition valid_labels :: "Collector \<Rightarrow> bool" where
  "valid_labels c = (ValidString (Collector.stationID c) \<and> ValidString (stationName c))"

definition sent :: "runtime \<Rightarrow> Collector \<Rightarrow> Metric list" where
  "sent rt c = (case Collector_Collect rt c of None \<Rightarrow> [] | Some ms \<Rightarrow> ms)"

definition emitted :: "runtime \<Rightarrow> Collector \<Rightarrow> Desc \<Rightarrow> bool" where
  "emitted rt c d = list_ex (\<lambda>m. metric_desc m = d) (sent rt c)"

text \<open>\<^verbatim>\<open>NewClient\<close>, and the state in which a client starts on a store.\<close>

definition defaultWSURL :: string where
  "defaultWSURL = ''wss://ws.weatherflow.com/swd/data''"

definition NewClient :: "string \<Rightarrow> string \<Rightarrow> Client" where
  "NewClient tok dev = \<lparr> Client.token = tok, deviceID = dev, wsURL = defaultWSURL, parseErrors = 0 \<rparr>"

definition stream_start :: "Client \<Rightarrow> Collector \<Rightarrow> StreamState" where
  "stream_start cl c = \<lparr> collector = c, actions = [], client = cl \<rparr>"

definition fallback_start :: "Collector \<Rightarrow> FallbackState" where
  "fallback_start c = \<lparr> collector = c, actions = [], disconnectedSince = None \<rparr>"

text \<open>The timers started and the number of fetches issued so far.\<close>

definition waits :: "'a World_scheme \<Rightarrow> int list" where
  "waits s = concat (map (\<lambda>a. case a of After d \<Rightarrow> [d] | _ \<Rightarrow> []) (actions s))"

definition fetches :: "'a World_scheme \<Rightarrow> nat" where
  "fetches s = length (filter (\<lambda>a. a = Fetch) (actions s))"

section \<open>Reference notions for the loops\<close>

text \<open>
  The warning of the read loop for a given count, and the counts after \<open>k\<close>, among the
  next \<open>n\<close>, at which the specification has it logged: 1 and the multiples of 100.
\<close>

definition unparseable_warning :: "int \<Rightarrow> Action" where
  "unparseable_warning count =
     Log LevelWarn ''ignoring unparseable message'' [(''total_parse_errors'', AttrInt count)]"

definition logged_counts :: "nat \<Rightarrow> nat \<Rightarrow> nat list" where
  "logged_counts k n = filter (\<lambda>c. c = 1 \<or> 100 dvd c) [Suc k..<Suc (k + n)]"

definition bad_message :: Message where
  "bad_message = \<lparr> msg_type = None, msg_obs = None, msg_evt = None \<rparr>"

text \<open>
  A connection attempt ends when the dial fails, the device id is not a number, the
  subscription cannot be written or a read fails. A failed cycle is one whose attempt
  ends with no cancellation observed. \<open>backoff_waits\<close> is the sequence of waits the loop
  makes over failed cycles: the current backoff, or one second when \<^verbatim>\<open>time.Since(start)\<close>
  exceeds two minutes, and then twice the wait, capped at 60 seconds.
\<close>

fun is_ReadError :: "ReadResult \<Rightarrow> bool" where
  "is_ReadError (ReadError e) = True"
| "is_ReadError (ReadMessage m) = False"

definition session_ends :: "runtime \<Rightarrow> string \<Rightarrow> Session \<Rightarrow> bool" where
  "session_ends rt dev ss =
     (dial_err ss \<noteq> None \<or> isl (Atoi rt dev) \<or> write_err ss \<noteq> None
      \<or> list_ex is_ReadError (reads ss))"

definition failed_cycle :: "runtime \<Rightarrow> string \<Rightarrow> Cycle \<Rightarrow> bool" where
  "failed_cycle rt dev cy = (session_ends rt dev (session cy) \<and> \<not> ctx_err cy \<and> \<not> ctx_done cy)"

definition quick :: "Cycle \<Rightarrow> bool" where
  "quick cy = (since_start cy \<le> 2 * Minute)"

fun backoff_waits :: "int \<Rightarrow> Cycle list \<Rightarrow> int list" where
  "backoff_waits b [] = []"
| "backoff_waits b (cy # cys) =
     (let w = (if since_start cy > 2 * Minute then Second else b)
      in w # backoff_waits (min (2 * w) maxBackoff) cys)"

definition unchanged :: "StreamState \<Rightarrow> StreamState \<Rightarrow> bool" where
  "unchanged s s' =
     (deviceID (client s') = deviceID (client s) \<and>
      reconnects (collector s') = reconnects (collector s) \<and> waits s' = waits s)"

text \<open>
  Three cycles: a dial refused after one second; a session that is read for three minutes
  and then fails; and a dial that fails after 130 seconds, when the operating system gives
  up on the connection (the dial has no timeout of its own), with no session at all.
\<close>

definition quick_failure :: Cycle where
  "quick_failure = \<lparr>
     session = \<lparr> dial_err = Some ''connection refused'', write_err = None, reads = [] \<rparr>,
     ctx_err = False, since_start = Second, ctx_done = False \<rparr>"

definition long_session :: Cycle where
  "long_session = \<lparr>
     session = \<lparr> dial_err = None, write_err = None, reads = [ReadError ''EOF''] \<rparr>,
     ctx_err = False, since_start = 3 * Minute, ctx_done = False \<rparr>"

definition slow_dial_failure :: Cycle where
  "slow_dial_failure = \<lparr>
     session = \<lparr> dial_err = Some ''connect: connection timed out'', write_err = None,
                 reads = [] \<rparr>,
     ctx_err = False, since_start = 130 * Second, ctx_done = False \<rparr>"

text \<open>
  Whether the store reports connected on a tick, and whether the threshold has elapsed
  since the recorded marker.
\<close>

definition tick_connected :: "FallbackState \<Rightarrow> Tick \<Rightarrow> bool" where
  "tick_connected s tk = isConnected (stream tk (collector s))"

definition threshold_elapsed :: "int \<Rightarrow> FallbackState \<Rightarrow> Tick \<Rightarrow> bool" where
  "threshold_elapsed th s tk =
     (case disconnectedSince s of None \<Rightarrow> False | Some t0 \<Rightarrow> th \<le> Sub (since tk) t0)"

text \<open>
  A run of \<^verbatim>\<open>RunFallback\<close> over a sequence of ticks, tick by tick: the state when the
  first \<open>n\<close> ticks have been handled, whether tick \<open>k\<close> finds the store connected, and
  whether tick \<open>k\<close> issues a fetch.
\<close>

definition state_after ::
    "runtime \<Rightarrow> RESTClient \<Rightarrow> int \<Rightarrow> int \<Rightarrow> FallbackState \<Rightarrow> Tick list \<Rightarrow> nat \<Rightarrow> FallbackState" where
  "state_after rt r th pollInterval s tks n =
     (case RunFallback rt r th pollInterval s (take n tks) of None \<Rightarrow> s | Some s' \<Rightarrow> s')"

definition connected_at ::
    "runtime \<Rightarrow> RESTClient \<Rightarrow> int \<Rightarrow> int \<Rightarrow> FallbackState \<Rightarrow> Tick list \<Rightarrow> nat \<Rightarrow> bool" where
  "connected_at rt r th pollInterval s tks k =
     tick_connected (state_after rt r th pollInterval s tks k) (tks ! k)"

definition fetched_at ::
    "runtime \<Rightarrow> RESTClient \<Rightarrow> int \<Rightarrow> int \<Rightarrow> FallbackState \<Rightarrow> Tick list \<Rightarrow> nat \<Rightarrow> bool" where
  "fetched_at rt r th pollInterval s tks k =
     (fetches (state_after rt r th pollInterval s tks (Suc k)) =
        Suc (fetches (state_after rt r th pollInterval s tks k)))"

definition marker_at ::
    "runtime \<Rightarrow> RESTClient \<Rightarrow> int \<Rightarrow> int \<Rightarrow> FallbackState \<Rightarrow> Tick list \<Rightarrow> nat \<Rightarrow> int option" where
  "marker_at rt r th pollInterval s tks k =
     disconnectedSince (state_after rt r th pollInterval s tks k)"

definition defaultBaseURL :: string where
  "defaultBaseURL = ''https://swd.weatherflow.com/swd/rest''"

definition NewRESTClient :: "string \<Rightarrow> string \<Rightarrow> RESTClient" where
  "NewRESTClient tok sid = \<lparr> token = tok, stationID = sid, baseURL = defaultBaseURL \<rparr>"

text \<open>
  The text of the \<^verbatim>\<open>*url.Error\<close> with which \<^verbatim>\<open>http.NewRequestWithContext\<close> fails when
  \<^verbatim>\<open>url.Parse\<close> rejects the URL: \<^verbatim>\<open>parse\<close>, the quoted URL and the reason.
\<close>

definition url_parse_error :: "runtime \<Rightarrow> string \<Rightarrow> string \<Rightarrow> string" where
  "url_parse_error rt u reason = ''parse '' @ Quote rt u @ '': '' @ reason"

text \<open>A tick at clock reading \<open>t\<close> on which the stream client has set the flag to \<open>c\<close>
  and a fetch would time out; and six such ticks a minute apart.\<close>

definition example_tick :: "bool \<Rightarrow> int \<Rightarrow> Tick" where
  "example_tick c t = \<lparr> stream = SetConnected c, now = t, since = t, http = DoError ''timeout'' \<rparr>"

definition example_ticks :: "Tick list" where
  "example_ticks =
     [example_tick False 60000000000, example_tick False 120000000000,
      example_tick False 180000000000, example_tick False 240000000000,
      example_tick True 300000000000, example_tick False 360000000000]"

text \<open>
  The observation of \<^verbatim>\<open>TestHandleObsST_NullFields\<close>: four of its fields are NaN.
\<close>

definition example_observation :: Observation where
  "example_observation = \<lparr>
     Timestamp = 1700000000, WindLull = NaN, WindAvg = Fin 1.2, WindGust = NaN,
     WindDirection = Fin 180, WindSampleInterval = Fin 3, StationPressure = Fin 1013.25,
     AirTemperature = Fin 22.5, RelativeHumidity = Fin 65, Illuminance = Fin 50000,
     UV = Fin 3.5, SolarRadiation = Fin 300, RainAccumulated = Fin 0.1,
     PrecipitationType = Fin 1, LightningStrikeAvgDist = NaN, LightningStrikeCount = NaN,
     Battery = Fin 2.65, ReportInterval = Fin 60 \<rparr>"

text \<open>
  Rounding to the nearest float64, ties to the even significand, as the floating-point
  unit does by default. The quantum of \<open>x\<close> is the distance between neighbouring
  float64 numbers of its magnitude: \<open>2\<^sup>e\<^sup>-\<^sup>5\<^sup>2\<close> for \<open>2\<^sup>e \<le> \<bar>x\<bar> < 2\<^sup>e\<^sup>+\<^sup>1\<close>, and \<open>2\<^sup>-\<^sup>1\<^sup>0\<^sup>7\<^sup>4\<close> for
  the subnormal numbers. The exact value is rounded to a whole number of quanta; a result
  of magnitude \<open>2\<^sup>1\<^sup>0\<^sup>2\<^sup>4\<close> is an infinity.
\<close>

definition round_half_even :: "real \<Rightarrow> int" where
  "round_half_even q =
     (if q - of_int \<lfloor>q\<rfloor> < 1 / 2 \<or> (q - of_int \<lfloor>q\<rfloor> = 1 / 2 \<and> even \<lfloor>q\<rfloor>) then \<lfloor>q\<rfloor>
      else \<lfloor>q\<rfloor> + 1)"

definition quantum :: "real \<Rightarrow> real" where
  "quantum x = 2 powr of_int (max (\<lfloor>log 2 \<bar>x\<bar>\<rfloor> - 52) (- 1074))"

definition round64 :: "real \<Rightarrow> float64" where
  "round64 x =
     (if x = 0 then Fin 0
      else let y = of_int (round_half_even (x / quantum x)) * quantum x
           in if 2 ^ 1024 \<le> \<bar>y\<bar> then (if 0 < x then PInf else NInf) else Fin y)"

fun rounded :: "float64 \<Rightarrow> float64" where
  "rounded (Fin x) = round64 x"
| "rounded f = f"

text \<open>
  A runtime for the examples. Its number parsers know the two literals of the unit tests
  (\<^verbatim>\<open>TestToFloat_JsonNumber\<close>, \<^verbatim>\<open>TestToInt64_JsonNumber\<close>) and reject every other
  text, \<^verbatim>\<open>Atoi\<close> knows the device id of the tests; an out-of-range conversion yields
  the bit pattern \<^verbatim>\<open>0x8000000000000000\<close>, as the conversion instruction of amd64 does.
  \<^verbatim>\<open>%q\<close> puts the text between double quotes and escapes a double quote, a backslash
  and a line feed (the other characters of the examples are printable ASCII). Its
  floating-point unit rounds to the nearest float64; its logarithm and power have the
  special cases \<^verbatim>\<open>math.Log\<close> and \<^verbatim>\<open>math.Pow\<close> document and, elsewhere, the exact
  result rounded to the nearest float64.
\<close>

definition conv_amd64 :: "float64 \<Rightarrow> int64" where
  "conv_amd64 f = word_of_int MinInt64"

definition quote_char :: "char \<Rightarrow> string" where
  "quote_char c =
     (if c = CHR 0x0A then [CHR 0x5C, CHR ''n'']
      else if c = CHR 0x22 \<or> c = CHR 0x5C then [CHR 0x5C, c]
      else [c])"

fun ideal_Log :: "float64 \<Rightarrow> float64" where
  "ideal_Log NaN = NaN"
| "ideal_Log PInf = PInf"
| "ideal_Log NInf = NaN"
| "ideal_Log (Fin x) = (if x < 0 then NaN else if x = 0 then NInf else Fin (ln x))"

definition is_int :: "real \<Rightarrow> bool" where
  "is_int y = (of_int \<lfloor>y\<rfloor> = y)"

definition is_odd_int :: "real \<Rightarrow> bool" where
  "is_odd_int y = (is_int y \<and> odd \<lfloor>y\<rfloor>)"

definition ideal_Pow :: "float64 \<Rightarrow> float64 \<Rightarrow> float64" where
  "ideal_Pow x y =
     (if y = Fin 0 \<or> x = Fin 1 then Fin 1
      else if y = Fin 1 then x
      else if IsNaN x \<or> IsNaN y then NaN
      else if x = Fin 0 then (if f_lt y (Fin 0) then PInf else Fin 0)
      else if IsInf y then
        (if x = Fin (- 1) then Fin 1
         else if (f_lt x (Fin 1) \<and> f_gt x (Fin (- 1))) = (y = PInf) then Fin 0
         else PInf)
      else if x = PInf then (if f_lt y (Fin 0) then Fin 0 else PInf)
      else case (x, y) of
        (NInf, Fin b) \<Rightarrow>
          (if b < 0 then Fin 0 else if is_odd_int b then NInf else PInf)
      | (Fin a, Fin b) \<Rightarrow>
          (if 0 < a then Fin (a powr b)
           else if is_int b then Fin (a powi \<lfloor>b\<rfloor>)
           else NaN)
      | _ \<Rightarrow> NaN)"

definition example_runtime :: runtime where
  "example_runtime = \<lparr>
     ParseFloat = (\<lambda>s. if s = ''3.14'' then Some (Fin 3.14) else None),
     ParseInt = (\<lambda>s. if s = ''1700000000'' then Some 1700000000 else None),
     conv_undef = conv_amd64,
     Atoi = (\<lambda>s. if s = ''12345'' then Inr 12345 else Inl ''strconv.Atoi: invalid syntax''),
     Quote = (\<lambda>s. CHR 0x22 # concat (map quote_char s) @ [CHR 0x22]),
     rnd = round64,
     math_Log = (\<lambda>x. rounded (ideal_Log x)),
     math_Pow = (\<lambda>x y. rounded (ideal_Pow x y)) \<rparr>"

section \<open>Facts about the conversions\<close>

lemma bitlen_MaxInt64: "bitlen (nat \<bar>MaxInt64\<bar>) = 63"
  unfolding MaxInt64_def by simp

lemma round53_MaxInt64: "round53 MaxInt64 = 9223372036854775808"
  unfolding round53_def bitlen_MaxInt64 unfolding MaxInt64_def Let_def by simp

lemma float64_of_int_MaxInt64: "float64_of_int MaxInt64 = Fin 9223372036854775808"
  by (simp add: float64_of_int_def round53_MaxInt64)

lemma float64_of_int_MinInt64: "float64_of_int MinInt64 = Fin (- 9223372036854775808)"
proof -
  have "bitlen (nat \<bar>MinInt64\<bar>) = 64" unfolding MinInt64_def by simp
  then have "round53 MinInt64 = - 9223372036854775808"
    unfolding round53_def Let_def by (simp add: MinInt64_def)
  then show ?thesis by (simp add: float64_of_int_def)
qed

lemma trunc_in_range:
  assumes "- 9223372036854775808 \<le> x" "x < 9223372036854775808"
  shows "MinInt64 \<le> trunc x \<and> trunc x \<le> MaxInt64"
proof -
  have "\<lfloor>x\<rfloor> < 9223372036854775808" using assms(2) by (simp add: floor_less_iff)
  moreover have "- 9223372036854775808 \<le> \<lceil>x\<rceil>" using assms(1) by (simp add: le_ceiling_iff)
  moreover have "0 \<le> x \<Longrightarrow> 0 \<le> \<lfloor>x\<rfloor>" by simp
  moreover have "\<not> 0 \<le> x \<Longrightarrow> \<lceil>x\<rceil> \<le> 0" by (simp add: ceiling_le_iff)
  ultimately show ?thesis
    unfolding trunc_def MinInt64_def MaxInt64_def by auto
qed

lemma trunc_2_63: "MaxInt64 < trunc 9223372036854775808"
  by (simp add: MaxInt64_def trunc_def)

section \<open>The stream frame\<close>

lemma toInt64_float_in_range:
  assumes "- 9223372036854775808 \<le> x" "x < 9223372036854775808"
  shows "toInt64 rt (VFloat64 (Fin x)) = Inr (word_of_int (trunc x))"
  using assms trunc_in_range [OF assms]
  by (simp add: float64_of_int_MaxInt64 float64_of_int_MinInt64 f_gt_def)

lemma toInt64_float_rejected:
  assumes "x < - 9223372036854775808 \<or> 9223372036854775808 < x"
  shows "toInt64 rt (VFloat64 (Fin x)) = Inl (TimestampOutOfRange (Fin x))"
  using assms by (auto simp: float64_of_int_MaxInt64 float64_of_int_MinInt64 f_gt_def)

lemma toInt64_not_a_number:
  "toInt64 rt VNil = Inl NilTimestamp"
  "toInt64 rt (VFloat64 NaN) = Inl (TimestampOutOfRange NaN)"
  "toInt64 rt (VFloat64 PInf) = Inl (TimestampOutOfRange PInf)"
  "toInt64 rt (VFloat64 NInf) = Inl (TimestampOutOfRange NInf)"
  "toInt64 rt (VBool b) = Inl InvalidTimestampType"
  "toInt64 rt (VString s) = Inl InvalidTimestampType"
  "toInt64 rt (VSlice vs) = Inl InvalidTimestampType"
  "toInt64 rt (VMap kvs) = Inl InvalidTimestampType"
  by simp_all

lemma toInt64_boundary:
  "toInt64 rt (VFloat64 (Fin 9223372036854775808)) =
     Inr (conv_undef rt (Fin 9223372036854775808))"
  using trunc_2_63
  by (simp add: float64_of_int_MaxInt64 float64_of_int_MinInt64 f_gt_def)

lemma ParseObservation_short:
  "length raw < 18 \<Longrightarrow> ParseObservation rt raw = Inl (ArrayTooShort (length raw))"
  by (simp add: ParseObservation_def obsSTFieldCount_def)

lemma ParseObservation_bad_timestamp:
  "18 \<le> length raw \<Longrightarrow> toInt64 rt (raw ! 0) = Inl e \<Longrightarrow>
     ParseObservation rt raw = Inl (ParsingTimestamp e)"
  by (simp add: ParseObservation_def obsSTFieldCount_def)

lemma toFloat_sentinel:
  "toFloat rt VNil = NaN"
  "toFloat rt (VBool b) = NaN"
  "toFloat rt (VString s) = NaN"
  "toFloat rt (VSlice vs) = NaN"
  "toFloat rt (VMap kvs) = NaN"
  "toFloat rt (VFloat64 n) = n"
  by simp_all

text \<open>
  C1. A frame of fewer than 18 slots, or with a slot 0 that is null, not a number, NaN,
  infinite or outside the int64 range, is rejected. The code accepts the frame whose
  slot 0 is the float64 \<open>2\<^sup>6\<^sup>3\<close>, one more than the largest int64: the constant
  \<^verbatim>\<open>math.MaxInt64\<close> it is compared with is itself rounded to \<open>2\<^sup>6\<^sup>3\<close>. The timestamp
  is then the implementation-dependent result of the out-of-range conversion.
\<close>

theorem ParseObservation_timestamp_boundary:
  "ParseObservation rt (VFloat64 (Fin 9223372036854775808) # replicate 17 (VFloat64 (Fin 0))) =
     Inr \<lparr> Timestamp = conv_undef rt (Fin 9223372036854775808),
          WindLull = Fin 0, WindAvg = Fin 0, WindGust = Fin 0, WindDirection = Fin 0,
          WindSampleInterval = Fin 0, StationPressure = Fin 0, AirTemperature = Fin 0,
          RelativeHumidity = Fin 0, Illuminance = Fin 0, UV = Fin 0, SolarRadiation = Fin 0,
          RainAccumulated = Fin 0, PrecipitationType = Fin 0, LightningStrikeAvgDist = Fin 0,
          LightningStrikeCount = Fin 0, Battery = Fin 0, ReportInterval = Fin 0 \<rparr>"
  unfolding ParseObservation_def obsSTFieldCount_def
  by (simp add: toInt64_boundary nth_Cons' del: toInt64.simps)

text \<open>
  What the code does on every other frame of at least 18 slots whose slot 0 is a float64
  inside the int64 range: the timestamp is the truncated number and each further field is
  the coercion of its own slot.
\<close>

lemma ParseObservation_ok:
  assumes "18 \<le> length raw" "raw ! 0 = VFloat64 (Fin x)"
    "- 9223372036854775808 \<le> x" "x < 9223372036854775808"
  shows "ParseObservation rt raw = Inr \<lparr>
          Timestamp = word_of_int (trunc x),
          WindLull = toFloat rt (raw ! 1),
          WindAvg = toFloat rt (raw ! 2),
          WindGust = toFloat rt (raw ! 3),
          WindDirection = toFloat rt (raw ! 4),
          WindSampleInterval = toFloat rt (raw ! 5),
          StationPressure = toFloat rt (raw ! 6),
          AirTemperature = toFloat rt (raw ! 7),
          RelativeHumidity = toFloat rt (raw ! 8),
          Illuminance = toFloat rt (raw ! 9),
          UV = toFloat rt (raw ! 10),
          SolarRadiation = toFloat rt (raw ! 11),
          RainAccumulated = toFloat rt (raw ! 12),
          PrecipitationType = toFloat rt (raw ! 13),
          LightningStrikeAvgDist = toFloat rt (raw ! 14),
          LightningStrikeCount = toFloat rt (raw ! 15),
          Battery = toFloat rt (raw ! 16),
          ReportInterval = toFloat rt (raw ! 17) \<rparr>"
  using assms(1) toInt64_float_in_range [OF assms(3,4), of rt]
  unfolding ParseObservation_def obsSTFieldCount_def assms(2)
  by (simp del: toInt64.simps)

text \<open>
  C8, as stated: a string that spells a number, such as \<^verbatim>\<open>"3.14"\<close>, is coerced like the
  native number. The string is a value of the wrong type and yields the sentinel.
\<close>

theorem toFloat_string_is_sentinel:
  "toFloat example_runtime (VString ''3.14'') \<noteq> toFloat example_runtime (VFloat64 (Fin 3.14))"
  by simp

text \<open>
  C8, amended. A string in a non-timestamp slot, numeric or not, yields the sentinel; the
  string-backed number the coercion accepts is \<^verbatim>\<open>json.Number\<close>, which yields what
  \<^verbatim>\<open>strconv.ParseFloat\<close> reads from its text, as a native float64 yields itself, and
  the sentinel when the text does not parse.
\<close>

theorem toFloat_number_text:
  "toFloat rt (VString s) = NaN \<and>
   (ParseFloat rt s = Some f \<longrightarrow> toFloat rt (VNumber s) = f \<and> toFloat rt (VFloat64 f) = f) \<and>
   (ParseFloat rt s = None \<longrightarrow> toFloat rt (VNumber s) = NaN)"
  by simp

theorem toFloat_number_text_witness:
  "toFloat example_runtime (VString ''3.14'') = NaN \<and>
   ParseFloat example_runtime ''3.14'' = Some (Fin 3.14) \<and>
   toFloat example_runtime (VNumber ''3.14'') = Fin 3.14 \<and>
   ParseFloat example_runtime ''not-a-number'' = None \<and>
   toFloat example_runtime (VNumber ''not-a-number'') = NaN"
  using toFloat_number_text [of example_runtime "''3.14''" "Fin 3.14"]
    toFloat_number_text [of example_runtime "''not-a-number''"]
  by (simp add: example_runtime_def)

section \<open>The poll response\<close>

lemma restObsToObservation_absent:
  "wind_lull ro = None \<Longrightarrow> WindLull (restObsToObservation rt ro) = Fin 0"
  "wind_avg ro = None \<Longrightarrow> WindAvg (restObsToObservation rt ro) = Fin 0"
  "wind_gust ro = None \<Longrightarrow> WindGust (restObsToObservation rt ro) = Fin 0"
  "wind_direction ro = None \<Longrightarrow> WindDirection (restObsToObservation rt ro) = Fin 0"
  "station_pressure ro = None \<Longrightarrow> StationPressure (restObsToObservation rt ro) = Fin 0"
  "air_temperature ro = None \<Longrightarrow> AirTemperature (restObsToObservation rt ro) = Fin 0"
  "relative_humidity ro = None \<Longrightarrow> RelativeHumidity (restObsToObservation rt ro) = Fin 0"
  "illuminance ro = None \<Longrightarrow> Illuminance (restObsToObservation rt ro) = Fin 0"
  "uv ro = None \<Longrightarrow> UV (restObsToObservation rt ro) = Fin 0"
  "solar_radiation ro = None \<Longrightarrow> SolarRadiation (restObsToObservation rt ro) = Fin 0"
  "rain_accumulated ro = None \<Longrightarrow> RainAccumulated (restObsToObservation rt ro) = Fin 0"
  "precip_type ro = None \<Longrightarrow> PrecipitationType (restObsToObservation rt ro) = Fin 0"
  "lightning_strike_avg_distance ro = None \<Longrightarrow>
     LightningStrikeAvgDist (restObsToObservation rt ro) = Fin 0"
  "lightning_strike_count ro = None \<Longrightarrow>
     LightningStrikeCount (restObsToObservation rt ro) = Fin 0"
  "battery ro = None \<Longrightarrow> Battery (restObsToObservation rt ro) = Fin 0"
  "report_interval ro = None \<Longrightarrow> ReportInterval (restObsToObservation rt ro) = Fin 0"
  "timestamp ro = None \<Longrightarrow> Timestamp (restObsToObservation rt ro) = 0"
  by (simp_all add: restObsToObservation_def Let_def split: option.split)

lemma restObsToObservation_timestamp_in_range:
  assumes "timestamp ro = Some (Fin x)" "0 \<le> x" "x < 9223372036854775808"
  shows "Timestamp (restObsToObservation rt ro) = word_of_int \<lfloor>x\<rfloor>"
proof -
  have "MinInt64 \<le> trunc x \<and> trunc x \<le> MaxInt64"
    using assms(2,3) by (intro trunc_in_range) simp_all
  moreover have "trunc x = \<lfloor>x\<rfloor>" using assms(2) by (simp add: trunc_def)
  ultimately show ?thesis
    using assms unfolding restObsToObservation_def
    by (simp add: float64_of_int_MaxInt64 f_ge_def)
qed

lemma restObsToObservation_timestamp_rejected:
  assumes "timestamp ro = Some ts"
    "ts = NaN \<or> ts = PInf \<or> ts = NInf \<or> (\<exists>x. ts = Fin x \<and> (x < 0 \<or> 9223372036854775808 < x))"
  shows "Timestamp (restObsToObservation rt ro) = 0"
  using assms unfolding restObsToObservation_def
  by (auto simp: float64_of_int_MaxInt64 f_ge_def)

text \<open>
  C2. An absent field becomes 0, and a timestamp outside the non-negative int64 range
  leaves the timestamp 0. The code does not leave it 0 for the float64 \<open>2\<^sup>6\<^sup>3\<close>:
  the guard compares with \<^verbatim>\<open>float64(math.MaxInt64)\<close>, which is \<open>2\<^sup>6\<^sup>3\<close>, so the
  value passes and the timestamp is the implementation-dependent result of the
  out-of-range conversion (the smallest int64 on amd64).
\<close>

theorem restObsToObservation_timestamp_boundary:
  "Timestamp (restObsToObservation rt (ro\<lparr>timestamp := Some (Fin 9223372036854775808)\<rparr>)) =
     conv_undef rt (Fin 9223372036854775808) \<and>
   sint (Timestamp (restObsToObservation example_runtime
      (ro\<lparr>timestamp := Some (Fin 9223372036854775808)\<rparr>))) = - 9223372036854775808"
proof -
  have "Timestamp (restObsToObservation r (ro\<lparr>timestamp := Some (Fin 9223372036854775808)\<rparr>)) =
     conv_undef r (Fin 9223372036854775808)" for r
    using trunc_2_63 float64_of_int_MaxInt64 unfolding restObsToObservation_def
    by (simp add: f_ge_def)
  then show ?thesis
    by (simp add: example_runtime_def conv_amd64_def MinInt64_def)
qed

section \<open>Rounding to the nearest float64\<close>

text \<open>
  The rounded value is within half a quantum of the exact one: within one part in
  \<open>2\<^sup>5\<^sup>3\<close> for magnitudes between \<open>1/1000\<close> and 1000, and within \<open>2\<^sup>-\<^sup>5\<^sup>3\<close> for
  magnitudes up to 1.
\<close>

lemma round_half_even_near: "\<bar>of_int (round_half_even q) - q\<bar> \<le> 1 / 2"
proof -
  have "of_int \<lfloor>q\<rfloor> \<le> q" "q < of_int \<lfloor>q\<rfloor> + 1" by linarith+
  then show ?thesis unfolding round_half_even_def by (auto simp: abs_le_iff)
qed

lemma quantum_pos: "0 < quantum x"
  by (simp add: quantum_def)

lemma quantum_le_1: assumes "x \<noteq> 0" "\<bar>x\<bar> \<le> 1000" shows "quantum x \<le> 1"
proof -
  have "log 2 \<bar>x\<bar> \<le> log 2 1024" using assms by (subst log_le_cancel_iff) simp_all
  also have "log 2 1024 = 10" using log_pow_cancel [of 2 10] by simp
  finally have "\<lfloor>log 2 \<bar>x\<bar>\<rfloor> \<le> 10" by (simp add: floor_le_iff)
  then have "max (\<lfloor>log 2 \<bar>x\<bar>\<rfloor> - 52) (- 1074) \<le> 0" by simp
  then have "real_of_int (max (\<lfloor>log 2 \<bar>x\<bar>\<rfloor> - 52) (- 1074)) \<le> 0"
    by (simp only: of_int_le_0_iff)
  then have "(2::real) powr of_int (max (\<lfloor>log 2 \<bar>x\<bar>\<rfloor> - 52) (- 1074)) \<le> 2 powr 0"
    by (intro powr_mono) simp_all
  then show ?thesis by (simp add: quantum_def)
qed

lemma round64_finite:
  assumes "x \<noteq> 0" "\<bar>x\<bar> \<le> 1000"
  shows "\<exists>y. round64 x = Fin y \<and> \<bar>y - x\<bar> \<le> quantum x / 2"
proof -
  define u where "u = quantum x"
  define n where "n = round_half_even (x / u)"
  have u: "0 < u" "u \<le> 1" using quantum_pos quantum_le_1 [OF assms] by (simp_all add: u_def)
  have "\<bar>of_int n - x / u\<bar> \<le> 1 / 2" unfolding n_def by (rule round_half_even_near)
  then have "\<bar>of_int n - x / u\<bar> * u \<le> 1 / 2 * u" using u(1) by (intro mult_right_mono) simp_all
  moreover have "\<bar>of_int n - x / u\<bar> * u = \<bar>of_int n * u - x\<bar>"
  proof -
    have "(of_int n - x / u) * u = of_int n * u - x" using u(1) by (simp add: field_simps)
    then have "\<bar>of_int n * u - x\<bar> = \<bar>of_int n - x / u\<bar> * \<bar>u\<bar>"
      by (simp only: abs_mult [symmetric])
    then show ?thesis using u(1) by simp
  qed
  ultimately have err: "\<bar>of_int n * u - x\<bar> \<le> u / 2" by simp
  then have "\<bar>of_int n * u\<bar> \<le> 1001" using assms(2) u(2) by linarith
  moreover have "(1001::real) < 2 ^ 1024" by simp
  ultimately have "\<not> 2 ^ 1024 \<le> \<bar>of_int n * u\<bar>" by linarith
  then have "round64 x = Fin (of_int n * u)"
    using assms(1) unfolding round64_def Let_def n_def u_def by simp
  with err show ?thesis unfolding u_def by blast
qed

lemma round64_relative:
  assumes "1 / 1000 \<le> \<bar>x\<bar>" "\<bar>x\<bar> \<le> 1000"
  shows "\<exists>y. round64 x = Fin y \<and> \<bar>y - x\<bar> \<le> \<bar>x\<bar> / 10 ^ 9"
proof -
  have x0: "x \<noteq> 0" "0 < \<bar>x\<bar>" using assms(1) by auto
  define E where "E = \<lfloor>log 2 \<bar>x\<bar>\<rfloor>"
  have "log 2 (1 / 1024) \<le> log 2 \<bar>x\<bar>" using assms(1) x0 by (subst log_le_cancel_iff) simp_all
  moreover have "log 2 (1 / 1024) = - 10" using log_pow_cancel [of 2 10] by (simp add: log_divide)
  ultimately have "- 10 \<le> E" by (simp add: E_def le_floor_iff)
  then have m: "max (E - 52) (- 1074) = E - 52" by simp
  have "2 powr of_int E \<le> 2 powr log 2 \<bar>x\<bar>" unfolding E_def by (intro powr_mono) simp_all
  then have E: "2 powr of_int E \<le> \<bar>x\<bar>" using x0 by simp
  have "quantum x = 2 powr (of_int E - 52)" by (simp add: quantum_def E_def [symmetric] m)
  also have "\<dots> = 2 powr of_int E / 2 ^ 52" by (simp add: powr_diff)
  finally have q: "quantum x \<le> \<bar>x\<bar> / 2 ^ 52" using E by (simp add: divide_right_mono)
  obtain y where y: "round64 x = Fin y" "\<bar>y - x\<bar> \<le> quantum x / 2"
    using round64_finite [OF x0(1) assms(2)] by blast
  have "quantum x / 2 \<le> \<bar>x\<bar> / 2 ^ 52 / 2" using q by simp
  also have "\<dots> \<le> \<bar>x\<bar> / 10 ^ 9" using x0(2) by (simp add: field_simps)
  finally show ?thesis using y by (intro exI [of _ y]) simp
qed

lemma round64_absolute:
  assumes "\<bar>x\<bar> \<le> 1"
  shows "\<exists>y. round64 x = Fin y \<and> \<bar>y - x\<bar> \<le> 1 / 10 ^ 9"
proof (cases "x = 0")
  case True
  then show ?thesis by (simp add: round64_def)
next
  case False
  then have "log 2 \<bar>x\<bar> \<le> 0" using assms by simp
  then have "\<lfloor>log 2 \<bar>x\<bar>\<rfloor> \<le> 0" by (simp add: floor_le_iff)
  then have "max (\<lfloor>log 2 \<bar>x\<bar>\<rfloor> - 52) (- 1074) \<le> - 52" by simp
  then have "real_of_int (max (\<lfloor>log 2 \<bar>x\<bar>\<rfloor> - 52) (- 1074)) \<le> real_of_int (- 52)"
    by (simp only: of_int_le_iff)
  then have "quantum x \<le> 2 powr (- 52)"
    unfolding quantum_def by (intro powr_mono) simp_all
  also have "(2::real) powr (- 52) = 1 / 2 ^ 52" by (simp add: powr_minus_divide)
  finally have q: "quantum x \<le> 1 / 2 ^ 52" .
  obtain y where y: "round64 x = Fin y" "\<bar>y - x\<bar> \<le> quantum x / 2"
    using round64_finite [OF False] assms by fastforce
  have "quantum x / 2 \<le> 1 / 10 ^ 9" using q by simp
  with y show ?thesis by (intro exI [of _ y]) simp
qed


lemma accurate_example: "accurate example_runtime"
proof -
  have "\<exists>y. rounded (ideal_Log (Fin x)) = Fin y \<and> \<bar>y - ln x\<bar> \<le> 1 / 10 ^ 9"
    if "1 / 2 \<le> x \<and> x \<le> 1" for x :: real
  proof -
    have "exp (- 1) \<le> (1 / 2 :: real)"
      using exp_ge_add_one_self [of "1::real"] by (simp add: exp_minus field_simps)
    then have "ln (exp (- 1)) \<le> ln x" using that by (subst ln_le_cancel_iff) simp_all
    moreover have "ln x \<le> 0" using that by simp
    ultimately have "\<bar>ln x\<bar> \<le> 1" by simp
    then show ?thesis using that round64_absolute [of "ln x"] by simp
  qed
  then show ?thesis
    using round64_relative by (simp add: accurate_def example_runtime_def)
qed

text \<open>The float64 nearest to 237.7, and the rounding of zero.\<close>

lemma round64_0: "round64 0 = Fin 0"
  by (simp add: round64_def)

lemma round64_2377: "round64 237.7 = Fin (4181662622757683 / 17592186044416)"
proof -
  have "\<lfloor>log 2 (237.7::real)\<rfloor> = 7"
    by (simp add: floor_eq_iff le_log_iff log_less_iff)
  then have q: "quantum 237.7 = 1 / 2 ^ 45"
    by (simp add: quantum_def powr_minus_divide)
  have "round_half_even (237.7 / (1 / 2 ^ 45)) = 8363325245515366"
    by (simp add: round_half_even_def)
  then show ?thesis unfolding round64_def q Let_def by simp
qed

section \<open>Derived metrics\<close>

subsection \<open>Dew point\<close>

lemma DewPoint_guard:
  "IsNaN t \<or> IsNaN h \<or> f_le h (Fin 0) \<Longrightarrow> DewPoint rt t h = NaN"
  by (simp add: DewPoint_def)

lemma DewPoint_formula:
  "\<not> (IsNaN t \<or> IsNaN h \<or> f_le h (Fin 0)) \<Longrightarrow> DewPoint rt t h = magnus rt t h"
  by (simp add: DewPoint_def magnus_def magnus_gamma_def Let_def)

text \<open>
  When the divisor \<open>b + tempC\<close> is zero the first quotient is an infinity or NaN,
  whatever the product above it is, and so is \<open>gamma\<close>, whatever the logarithm is; the
  final quotient then has an infinity or NaN above and below, and is NaN.
\<close>

lemma f_div_zero: "f_div rt p (Fin 0) = NaN \<or> f_div rt p (Fin 0) = PInf \<or> f_div rt p (Fin 0) = NInf"
  by (cases p) (simp_all add: signed_inf_def)

lemma f_add_inf:
  "d = NaN \<or> d = PInf \<or> d = NInf \<Longrightarrow>
     f_add rt d l = NaN \<or> f_add rt d l = PInf \<or> f_add rt d l = NInf"
  by (cases l) auto

lemma magnus_inf:
  assumes "g = NaN \<or> g = PInf \<or> g = NInf" "0 < b"
  shows "f_div rt (f_mul rt (Fin b) g) (f_sub rt a g) = NaN"
  using assms by (cases a) (auto simp: f_sub_def signed_inf_def)

lemma DewPoint_zero_divisor:
  assumes "rnd rt 237.7 = Fin b" "0 < b" "rnd rt 0 = Fin 0"
  shows "DewPoint rt (Fin (- b)) h = NaN"
proof (cases "IsNaN h \<or> f_le h (Fin 0)")
  case True
  then show ?thesis by (simp add: DewPoint_def)
next
  case False
  define l where "l = math_Log rt (f_div rt h (Fin 100))"
  define p where "p = f_mul rt (rnd rt 17.27) (Fin (- b))"
  define g where "g = f_add rt (f_div rt p (Fin 0)) l"
  have "g = NaN \<or> g = PInf \<or> g = NInf"
    unfolding g_def by (rule f_add_inf) (rule f_div_zero)
  then have "f_div rt (f_mul rt (Fin b) g) (f_sub rt (rnd rt 17.27) g) = NaN"
    using assms(2) by (rule magnus_inf)
  then show ?thesis
    using False assms(1,3) by (simp add: DewPoint_def Let_def g_def p_def l_def)
qed

text \<open>The natural logarithm near 0.65, from the bounds of the exponential by its limit.\<close>

lemma ln_upper: "ln (0.6501::real) \<le> - 0.4249"
proof -
  have "(0.6501::real) \<le> (1 - 0.4249 / of_nat 32) ^ 32" by (simp add: power_divide)
  also have "\<dots> \<le> exp (- 0.4249)"
    by (rule exp_ge_one_minus_x_over_n_power_n) simp_all
  finally have "ln (0.6501::real) \<le> ln (exp (- 0.4249))"
    by (subst ln_le_cancel_iff) simp_all
  then show ?thesis by simp
qed

lemma ln_lower: "- 0.4355 \<le> ln (0.6499::real)"
proof -
  have "(10000 / 6499 :: real) \<le> (1 + 0.4355 / of_nat 32) ^ 32" by (simp add: power_divide)
  also have "\<dots> \<le> exp 0.4355"
    by (rule exp_ge_one_plus_x_over_n_power_n) simp_all
  finally have "exp (- 0.4355) \<le> (0.6499::real)"
    by (simp add: exp_minus field_simps)
  then show ?thesis by (simp add: ln_ge_iff)
qed

lemma rnd_near:
  assumes "accurate rt" "1 / 1000 \<le> lo" "lo \<le> x" "x \<le> hi" "hi \<le> 1000"
    "lo' \<le> lo * (1 - 1 / 10 ^ 9)" "hi * (1 + 1 / 10 ^ 9) \<le> hi'"
  shows "\<exists>y. rnd rt x = Fin y \<and> lo' \<le> y \<and> y \<le> hi'"
proof -
  have x: "0 < x" "\<bar>x\<bar> = x" using assms(2,3) by simp_all
  have "1 / 1000 \<le> \<bar>x\<bar> \<and> \<bar>x\<bar> \<le> 1000" using assms(2-5) x by simp
  then obtain y where y: "rnd rt x = Fin y" "\<bar>y - x\<bar> \<le> \<bar>x\<bar> / 10 ^ 9"
    using assms(1) unfolding accurate_def by blast
  have "lo * (1 - 1 / 10 ^ 9) \<le> x * (1 - 1 / 10 ^ 9)"
    using assms(3) by (intro mult_right_mono) simp_all
  moreover have "x * (1 + 1 / 10 ^ 9) \<le> hi * (1 + 1 / 10 ^ 9)"
    using assms(4) by (intro mult_right_mono) simp_all
  moreover have "x - x / 10 ^ 9 \<le> y" "y \<le> x + x / 10 ^ 9"
    using y(2) x by linarith+
  then have "x * (1 - 1 / 10 ^ 9) \<le> y" "y \<le> x * (1 + 1 / 10 ^ 9)"
    by (simp_all add: algebra_simps)
  ultimately have "lo' \<le> y" "y \<le> hi'" using assms(6,7) by linarith+
  with y(1) show ?thesis by blast
qed

lemma Log_near:
  assumes "accurate rt" "1 / 2 \<le> lo" "lo \<le> x" "x \<le> hi" "hi \<le> 1"
    "lo' \<le> ln lo - 1 / 10 ^ 9" "ln hi + 1 / 10 ^ 9 \<le> hi'"
  shows "\<exists>y. math_Log rt (Fin x) = Fin y \<and> lo' \<le> y \<and> y \<le> hi'"
proof -
  have "1 / 2 \<le> x \<and> x \<le> 1" using assms(2-5) by simp
  then obtain y where y: "math_Log rt (Fin x) = Fin y" "\<bar>y - ln x\<bar> \<le> 1 / 10 ^ 9"
    using assms(1) unfolding accurate_def by blast
  have "ln lo \<le> ln x" "ln x \<le> ln hi" using assms(2-5) by simp_all
  then have "lo' \<le> y" "y \<le> hi'" using y(2) assms(6,7) by linarith+
  with y(1) show ?thesis by blast
qed

lemma DewPoint_example:
  assumes acc: "accurate rt"
  shows "\<exists>d. DewPoint rt (Fin 22.5) (Fin 65) = Fin d \<and> 15.5 \<le> d \<and> d \<le> 15.7"
proof -
  have "\<exists>y. rnd rt 17.27 = Fin y \<and> 17.2699 \<le> y \<and> y \<le> 17.2701"
    by (rule rnd_near [OF acc, where lo = "17.27" and hi = "17.27"]) simp_all
  then obtain A where A: "rnd rt 17.27 = Fin A" "17.2699 \<le> A" "A \<le> 17.2701" by blast
  have "\<exists>y. rnd rt 237.7 = Fin y \<and> 237.699 \<le> y \<and> y \<le> 237.701"
    by (rule rnd_near [OF acc, where lo = "237.7" and hi = "237.7"]) simp_all
  then obtain B where B: "rnd rt 237.7 = Fin B" "237.699 \<le> B" "B \<le> 237.701" by blast
  have "\<exists>y. rnd rt (A * 22.5) = Fin y \<and> 388.57 \<le> y \<and> y \<le> 388.58"
    by (rule rnd_near [OF acc, where lo = "388.572" and hi = "388.578"]) (use A in simp_all)
  then obtain P where P: "rnd rt (A * 22.5) = Fin P" "388.57 \<le> P" "P \<le> 388.58" by blast
  have "\<exists>y. rnd rt (B + 22.5) = Fin y \<and> 260.19 \<le> y \<and> y \<le> 260.21"
    by (rule rnd_near [OF acc, where lo = "260.199" and hi = "260.201"]) (use B in simp_all)
  then obtain S where S: "rnd rt (B + 22.5) = Fin S" "260.19 \<le> S" "S \<le> 260.21" by blast
  have S0: "0 < S" "S \<noteq> 0" using S(2) by simp_all
  have PS: "1.4932 \<le> P / S" "P / S \<le> 1.4935"
    using P S S0 by (simp_all add: pos_le_divide_eq pos_divide_le_eq)
  have "\<exists>y. rnd rt (P / S) = Fin y \<and> 1.4931 \<le> y \<and> y \<le> 1.4936"
    by (rule rnd_near [OF acc, where lo = "1.4932" and hi = "1.4935"]) (use PS in simp_all)
  then obtain Q where Q: "rnd rt (P / S) = Fin Q" "1.4931 \<le> Q" "Q \<le> 1.4936" by blast
  have "\<exists>y. rnd rt (65 / 100) = Fin y \<and> 0.6499 \<le> y \<and> y \<le> 0.6501"
    by (rule rnd_near [OF acc, where lo = "0.65" and hi = "0.65"]) simp_all
  then obtain H where H: "rnd rt (65 / 100) = Fin H" "0.6499 \<le> H" "H \<le> 0.6501" by blast
  have "\<exists>y. math_Log rt (Fin H) = Fin y \<and> - 0.4356 \<le> y \<and> y \<le> - 0.4248"
    by (rule Log_near [OF acc, where lo = "0.6499" and hi = "0.6501"])
      (use H ln_upper ln_lower in simp_all)
  then obtain L where L: "math_Log rt (Fin H) = Fin L" "- 0.4356 \<le> L" "L \<le> - 0.4248" by blast
  have "\<exists>y. rnd rt (Q + L) = Fin y \<and> 1.0574 \<le> y \<and> y \<le> 1.0689"
    by (rule rnd_near [OF acc, where lo = "1.0575" and hi = "1.0688"]) (use Q L in simp_all)
  then obtain G where G: "rnd rt (Q + L) = Fin G" "1.0574 \<le> G" "G \<le> 1.0689" by blast
  have "237.699 * 1.0574 \<le> B * G" using B(2) G(2) by (intro mult_mono) simp_all
  moreover have "B * G \<le> 237.701 * 1.0689" using B(2,3) G(2,3) by (intro mult_mono) simp_all
  ultimately have BG: "251.342 \<le> B * G" "B * G \<le> 254.079" by simp_all
  have "\<exists>y. rnd rt (B * G) = Fin y \<and> 251.34 \<le> y \<and> y \<le> 254.08"
    by (rule rnd_near [OF acc, where lo = "251.342" and hi = "254.079"]) (use BG in simp_all)
  then obtain N where N: "rnd rt (B * G) = Fin N" "251.34 \<le> N" "N \<le> 254.08" by blast
  have "\<exists>y. rnd rt (A + - G) = Fin y \<and> 16.2009 \<le> y \<and> y \<le> 16.2128"
    by (rule rnd_near [OF acc, where lo = "16.201" and hi = "16.2127"]) (use A G in simp_all)
  then obtain D where D: "rnd rt (A + - G) = Fin D" "16.2009 \<le> D" "D \<le> 16.2128" by blast
  have D0: "0 < D" "D \<noteq> 0" using D(2) by simp_all
  have ND: "15.501 \<le> N / D" "N / D \<le> 15.69"
    using N D D0 by (simp_all add: pos_le_divide_eq pos_divide_le_eq)
  have "\<exists>y. rnd rt (N / D) = Fin y \<and> 15.5 \<le> y \<and> y \<le> 15.7"
    by (rule rnd_near [OF acc, where lo = "15.501" and hi = "15.69"]) (use ND in simp_all)
  then obtain R where R: "rnd rt (N / D) = Fin R" "15.5 \<le> R" "R \<le> 15.7" by blast
  have "DewPoint rt (Fin 22.5) (Fin 65) = Fin R"
    using A(1) B(1) P(1) S(1) S0 Q(1) H(1) L(1) G(1) N(1) D(1) D0 R(1)
    by (simp add: DewPoint_def Let_def f_sub_def)
  with R(2,3) show ?thesis by blast
qed

text \<open>
  C6, as stated: the result is NaN exactly when an input is NaN or the humidity is not
  positive. At the float64 that \<^verbatim>\<open>-237.7\<close> denotes, the negation of the constant
  \<open>b\<close>, none of the three conditions holds, the divisor \<open>b + tempC\<close> is zero,
  \<open>gamma\<close> is infinite and the final quotient of two infinities is NaN.
\<close>

theorem DewPoint_NaN_without_guard:
  "DewPoint example_runtime (Fin (- (4181662622757683 / 17592186044416))) (Fin 50) = NaN \<and>
   f_neg (rnd example_runtime 237.7) = Fin (- (4181662622757683 / 17592186044416)) \<and>
   \<not> IsNaN (Fin (- (4181662622757683 / 17592186044416))) \<and> \<not> IsNaN (Fin 50) \<and>
   \<not> f_le (Fin 50) (Fin 0)"
proof -
  have r: "rnd example_runtime 237.7 = Fin (4181662622757683 / 17592186044416)"
    "rnd example_runtime 0 = Fin 0"
    by (simp_all add: example_runtime_def round64_2377 round64_0)
  have "DewPoint example_runtime (Fin (- (4181662622757683 / 17592186044416))) (Fin 50) = NaN"
    using r by (intro DewPoint_zero_divisor) simp_all
  then show ?thesis using r(1) by simp
qed

text \<open>
  C6, amended. The result is NaN whenever an input is NaN or the humidity is not positive;
  otherwise it is the Magnus formula evaluated in float64 arithmetic, which is NaN as well
  at the negation of the constant \<open>b\<close>, whatever the humidity. On a floating-point unit
  whose results are within one part in \<open>10\<^sup>9\<close> of the exact ones, the dew point at
  22.5 degrees and 65 percent is finite and within 0.1 of 15.6.
\<close>

theorem DewPoint_magnus:
  "(IsNaN t \<or> IsNaN h \<or> f_le h (Fin 0) \<longrightarrow> DewPoint rt t h = NaN) \<and>
   (\<not> (IsNaN t \<or> IsNaN h \<or> f_le h (Fin 0)) \<longrightarrow> DewPoint rt t h = magnus rt t h) \<and>
   (rnd rt 237.7 = Fin b \<and> 0 < b \<and> rnd rt 0 = Fin 0 \<longrightarrow> DewPoint rt (Fin (- b)) h = NaN) \<and>
   (accurate rt \<longrightarrow>
      (\<exists>d. DewPoint rt (Fin 22.5) (Fin 65.0) = Fin d \<and> \<bar>d - 15.6\<bar> \<le> 0.1))"
proof (intro conjI impI)
  show "DewPoint rt t h = NaN" if "IsNaN t \<or> IsNaN h \<or> f_le h (Fin 0)"
    using that by (rule DewPoint_guard)
  show "DewPoint rt t h = magnus rt t h" if "\<not> (IsNaN t \<or> IsNaN h \<or> f_le h (Fin 0))"
    using that by (rule DewPoint_formula)
  show "DewPoint rt (Fin (- b)) h = NaN" if "rnd rt 237.7 = Fin b \<and> 0 < b \<and> rnd rt 0 = Fin 0"
    using that by (intro DewPoint_zero_divisor) simp_all
  show "\<exists>d. DewPoint rt (Fin 22.5) (Fin 65.0) = Fin d \<and> \<bar>d - 15.6\<bar> \<le> 0.1" if acc: "accurate rt"
  proof -
    obtain d where "DewPoint rt (Fin 22.5) (Fin 65) = Fin d" "15.5 \<le> d" "d \<le> 15.7"
      using DewPoint_example [OF acc] by blast
    moreover from this have "\<bar>d - 15.6\<bar> \<le> 0.1" by linarith
    ultimately show ?thesis by auto
  qed
qed

theorem DewPoint_magnus_witness:
  "IsNaN NaN \<and> DewPoint example_runtime NaN (Fin 50) = NaN \<and>
   DewPoint example_runtime (Fin 20) NaN = NaN \<and>
   f_le (Fin 0) (Fin 0) \<and> DewPoint example_runtime (Fin 20) (Fin 0) = NaN \<and>
   \<not> IsNaN (Fin 30) \<and> \<not> IsNaN (Fin 100) \<and> \<not> f_le (Fin 100) (Fin 0) \<and>
   DewPoint example_runtime (Fin 30) (Fin 100) = magnus example_runtime (Fin 30) (Fin 100) \<and>
   rnd example_runtime 237.7 = Fin (4181662622757683 / 17592186044416) \<and>
   (0::real) < 4181662622757683 / 17592186044416 \<and> rnd example_runtime 0 = Fin 0 \<and>
   DewPoint example_runtime (Fin (- (4181662622757683 / 17592186044416))) (Fin 100) = NaN \<and>
   accurate example_runtime \<and>
   (\<exists>d. DewPoint example_runtime (Fin 22.5) (Fin 65.0) = Fin d \<and> \<bar>d - 15.6\<bar> \<le> 0.1)"
proof -
  have r: "rnd example_runtime 237.7 = Fin (4181662622757683 / 17592186044416)"
    "rnd example_runtime 0 = Fin 0"
    by (simp_all add: example_runtime_def round64_2377 round64_0)
  note a = DewPoint_magnus [where rt = example_runtime and t = NaN and h = "Fin 50"]
  note b = DewPoint_magnus [where rt = example_runtime and t = "Fin 20" and h = NaN]
  note c = DewPoint_magnus [where rt = example_runtime and t = "Fin 20" and h = "Fin 0"]
  note d = DewPoint_magnus [where rt = example_runtime and t = "Fin 30" and h = "Fin 100"
      and b = "4181662622757683 / 17592186044416"]
  have 1: "DewPoint example_runtime NaN (Fin 50) = NaN" using a by simp
  have 2: "DewPoint example_runtime (Fin 20) NaN = NaN" using b by simp
  have 3: "DewPoint example_runtime (Fin 20) (Fin 0) = NaN" using c by simp
  have 4: "DewPoint example_runtime (Fin 30) (Fin 100) = magnus example_runtime (Fin 30) (Fin 100)"
    using d by simp
  have 5: "DewPoint example_runtime (Fin (- (4181662622757683 / 17592186044416))) (Fin 100) = NaN"
    using d r by simp
  have 6: "\<exists>d. DewPoint example_runtime (Fin 22.5) (Fin 65.0) = Fin d \<and> \<bar>d - 15.6\<bar> \<le> 0.1"
    using d accurate_example by blast
  show ?thesis using 1 2 3 4 5 6 r accurate_example by simp
qed

subsection \<open>Feels-like temperature\<close>











section \<open>The snapshot store at export time\<close>

lemma MustNewConstMetric_valid:
  "ValidString a \<Longrightarrow> ValidString b \<Longrightarrow>
     MustNewConstMetric d vt v [a, b] = Some (ConstMetric d vt v [a, b])"
  by (simp add: MustNewConstMetric_def)

lemma MustNewConstMetric_invalid:
  "\<not> (ValidString a \<and> ValidString b) \<Longrightarrow> MustNewConstMetric d vt v [a, b] = None"
  by (auto simp: MustNewConstMetric_def)

lemma then_do_simps [simp]: "then_do None f = None" "then_do (Some ch) f = f ch"
  by (simp_all add: then_do_def)

lemma send_simps [simp]: "send None ch = None" "send (Some x) ch = Some (ch @ [x])"
  by (simp_all add: send_def)

lemma emitGauge_valid:
  "ValidString a \<Longrightarrow> ValidString b \<Longrightarrow>
     emitGauge [a, b] d v ch =
       Some (ch @ (if \<not> IsNaN v then [ConstMetric d GaugeValue v [a, b]] else []))"
  by (simp add: emitGauge_def MustNewConstMetric_valid)

text \<open>
  With a label value that is not valid UTF-8 the first constructor panics: nothing is
  sent. With valid label values no constructor panics.
\<close>

lemma Collect_invalid: "\<not> valid_labels c \<Longrightarrow> Collector_Collect rt c = None"
  by (simp add: Collector_Collect_def valid_labels_def MustNewConstMetric_invalid Let_def)

lemma Collect_no_obs:
  "valid_labels c \<Longrightarrow> \<not> hasObs c \<Longrightarrow> Collector_Collect rt c = Some (health_metrics c)"
  by (simp add: Collector_Collect_def valid_labels_def MustNewConstMetric_valid
      health_metrics_def Let_def)

lemma Collect_has_obs:
  "valid_labels c \<Longrightarrow> hasObs c \<Longrightarrow> Collector_Collect rt c = Some (
     health_metrics c
     @ [ConstMetric descLastObservation GaugeValue (float64_of_int (sint (Timestamp (obs c))))
          [Collector.stationID c, stationName c]]
     @ concat (map (\<lambda>(d, v). if \<not> IsNaN v
           then [ConstMetric d GaugeValue v [Collector.stationID c, stationName c]] else [])
         (gauge_table rt c))
     @ (if f_gt (rainStart c) (Fin 0) \<and> \<not> IsNaN (rainStart c)
        then [ConstMetric descRainStartEpoch GaugeValue (rainStart c)
                [Collector.stationID c, stationName c]]
        else []))"
  by (simp add: Collector_Collect_def valid_labels_def MustNewConstMetric_valid emitGauge_valid
      health_metrics_def gauge_table_def Let_def)

lemma sent_invalid: "\<not> valid_labels c \<Longrightarrow> sent rt c = []"
  by (simp add: sent_def Collect_invalid)

lemma gauge_table_distinct: "distinct (map fst (gauge_table rt c))"
  by (simp add: gauge_table_def)

lemma gauge_table_descs:
  "(d, v) \<in> set (gauge_table rt c) \<Longrightarrow>
     d \<notin> {descUp, descReconnects, descScrapeErrors, descLastObservation, descRainStartEpoch}"
  by (auto simp: gauge_table_def)

lemma gauge_table_unique:
  "(d, v) \<in> set (gauge_table rt c) \<Longrightarrow> (d, v') \<in> set (gauge_table rt c) \<Longrightarrow> v = v'"
  using gauge_table_distinct [of rt c] by (meson eq_key_imp_eq_value)

lemma sent_members:
  assumes "valid_labels c"
  shows "m \<in> set (sent rt c) \<longleftrightarrow>
     m \<in> set (health_metrics c) \<or>
     hasObs c \<and>
       (m = ConstMetric descLastObservation GaugeValue
              (float64_of_int (sint (Timestamp (obs c)))) [Collector.stationID c, stationName c]
        \<or> (\<exists>(d, v) \<in> set (gauge_table rt c).
              \<not> IsNaN v \<and> m = ConstMetric d GaugeValue v [Collector.stationID c, stationName c])
        \<or> (f_gt (rainStart c) (Fin 0) \<and> \<not> IsNaN (rainStart c) \<and>
            m = ConstMetric descRainStartEpoch GaugeValue (rainStart c)
                  [Collector.stationID c, stationName c]))"
proof (cases "hasObs c")
  case False
  then show ?thesis using assms by (simp add: sent_def Collect_no_obs)
next
  case True
  show ?thesis
    using True unfolding sent_def Collect_has_obs [OF assms True]
    by auto
qed

lemma f_gt_not_NaN: "f_gt v (Fin 0) \<Longrightarrow> \<not> IsNaN v"
  by (cases v) (simp_all add: f_gt_def)

lemma emitted_iff:
  "emitted rt c d \<longleftrightarrow> (\<exists>m \<in> set (sent rt c). metric_desc m = d)"
  by (simp add: emitted_def list_ex_iff)

lemma emitted_gauge:
  assumes "valid_labels c" "(d, v) \<in> set (gauge_table rt c)"
  shows "emitted rt c d \<longleftrightarrow> hasObs c \<and> \<not> IsNaN v"
proof
  assume "emitted rt c d"
  then obtain m where m: "m \<in> set (sent rt c)" "metric_desc m = d"
    by (auto simp: emitted_iff)
  have nd: "d \<notin> {descUp, descReconnects, descScrapeErrors, descLastObservation, descRainStartEpoch}"
    using gauge_table_descs [OF assms(2)] .
  from m(1) have "hasObs c \<and> (\<exists>(d', v') \<in> set (gauge_table rt c).
      \<not> IsNaN v' \<and> m = ConstMetric d' GaugeValue v' [Collector.stationID c, stationName c])"
    unfolding sent_members [OF assms(1)] using nd m(2) by (auto simp: health_metrics_def)
  then obtain d' v' where h: "hasObs c" "(d', v') \<in> set (gauge_table rt c)" "\<not> IsNaN v'"
      "m = ConstMetric d' GaugeValue v' [Collector.stationID c, stationName c]"
    by auto
  from h(4) m(2) have "d' = d" by simp
  with h(2) assms(2) have "v' = v" using gauge_table_unique by blast
  with h show "hasObs c \<and> \<not> IsNaN v" by simp
next
  assume a: "hasObs c \<and> \<not> IsNaN v"
  let ?m = "ConstMetric d GaugeValue v [Collector.stationID c, stationName c]"
  have "?m \<in> set (sent rt c)"
    unfolding sent_members [OF assms(1)] using a assms(2) by blast
  moreover have "metric_desc ?m = d" by simp
  ultimately show "emitted rt c d" unfolding emitted_iff by blast
qed

lemma emitted_rain:
  assumes "valid_labels c"
  shows "emitted rt c descRainStartEpoch \<longleftrightarrow> hasObs c \<and> f_gt (rainStart c) (Fin 0)"
proof
  assume "emitted rt c descRainStartEpoch"
  then obtain m where m: "m \<in> set (sent rt c)" "metric_desc m = descRainStartEpoch"
    by (auto simp: emitted_iff)
  have "\<And>v. (descRainStartEpoch, v) \<notin> set (gauge_table rt c)"
    using gauge_table_descs [of descRainStartEpoch _ rt c] by blast
  with m show "hasObs c \<and> f_gt (rainStart c) (Fin 0)"
    unfolding sent_members [OF assms] by (auto simp: health_metrics_def)
next
  assume a: "hasObs c \<and> f_gt (rainStart c) (Fin 0)"
  let ?m = "ConstMetric descRainStartEpoch GaugeValue (rainStart c)
              [Collector.stationID c, stationName c]"
  have "?m \<in> set (sent rt c)"
    unfolding sent_members [OF assms] using a f_gt_not_NaN [of "rainStart c"] by blast
  moreover have "metric_desc ?m = descRainStartEpoch" by simp
  ultimately show "emitted rt c descRainStartEpoch" unfolding emitted_iff by blast
qed

lemma gauges_not_NaN:
  assumes "m \<in> set (sent rt c)"
    "metric_desc m \<notin> {descUp, descReconnects, descScrapeErrors, descLastObservation}"
  shows "\<not> IsNaN (metric_value m)"
proof (cases "valid_labels c")
  case True
  then show ?thesis
    using assms f_gt_not_NaN [of "rainStart c"] unfolding sent_members [OF True]
    by (auto simp: health_metrics_def)
next
  case False
  then show ?thesis using assms(1) by (simp add: sent_invalid)
qed

text \<open>
  What the code does when both label values are valid UTF-8: the three health metrics are
  sent, and nothing else before the first observation. No gauge is sent with a NaN value; with an observation stored, a gauge of
  the observation or a derived gauge is sent exactly when its value is not NaN, and the
  rain-start gauge exactly when the stored rain start is greater than 0.
\<close>

lemma Collect_emits:
  assumes "valid_labels c"
  shows "(\<exists>ms. Collector_Collect rt c = Some ms \<and> set (health_metrics c) \<subseteq> set ms) \<and>
   (\<not> hasObs c \<longrightarrow> Collector_Collect rt c = Some (health_metrics c)) \<and>
   (\<forall>m \<in> set (sent rt c).
      metric_desc m \<notin> {descUp, descReconnects, descScrapeErrors, descLastObservation} \<longrightarrow>
      \<not> IsNaN (metric_value m)) \<and>
   (\<forall>(d, v) \<in> set (gauge_table rt c). emitted rt c d \<longleftrightarrow> hasObs c \<and> \<not> IsNaN v) \<and>
   (emitted rt c descRainStartEpoch \<longleftrightarrow> hasObs c \<and> f_gt (rainStart c) (Fin 0))"
proof -
  have "\<exists>ms. Collector_Collect rt c = Some ms \<and> set (health_metrics c) \<subseteq> set ms"
    using Collect_no_obs [OF assms, of rt] Collect_has_obs [OF assms, of rt]
    by (cases "hasObs c") auto
  then show ?thesis
    using Collect_no_obs [OF assms, of rt] gauges_not_NaN [of _ rt c]
      emitted_gauge [OF assms, of _ _ rt] emitted_rain [OF assms, of rt]
    by blast
qed

lemma valid_labels_example:
  "valid_labels (NewCollector ''12345'' ''backyard'')"
  "valid_labels (UpdateObservation example_observation (NewCollector ''12345'' ''backyard''))"
  by (simp_all add: valid_labels_def NewCollector_def UpdateObservation_def)

lemma Collect_example:
  "Collector_Collect rt (NewCollector ''12345'' ''backyard'') = Some
     [ConstMetric descUp GaugeValue (Fin 0) [''12345'', ''backyard''],
      ConstMetric descReconnects CounterValue (Fin 0) [''12345'', ''backyard''],
      ConstMetric descScrapeErrors CounterValue (Fin 0) [''12345'', ''backyard'']]"
  "\<not> emitted rt (UpdateObservation example_observation (NewCollector ''12345'' ''backyard''))
       descWindLull"
  "emitted rt (UpdateObservation example_observation (NewCollector ''12345'' ''backyard''))
       descWindAvg"
  "\<not> emitted rt (UpdateObservation example_observation (NewCollector ''12345'' ''backyard''))
       descRainStartEpoch"
proof -
  let ?c0 = "NewCollector ''12345'' ''backyard''"
  let ?c1 = "UpdateObservation example_observation ?c0"
  have h0: "\<not> hasObs ?c0" by (simp add: NewCollector_def)
  have h1: "hasObs ?c1" by (simp add: UpdateObservation_def)
  have g1: "(descWindLull, NaN) \<in> set (gauge_table rt ?c1)"
    by (simp add: gauge_table_def UpdateObservation_def example_observation_def)
  have g2: "(descWindAvg, Fin 1.2) \<in> set (gauge_table rt ?c1)"
    by (simp add: gauge_table_def UpdateObservation_def example_observation_def)
  have r: "\<not> f_gt (rainStart ?c1) (Fin 0)"
    by (simp add: UpdateObservation_def NewCollector_def f_gt_def)
  show "Collector_Collect rt ?c0 = Some
     [ConstMetric descUp GaugeValue (Fin 0) [''12345'', ''backyard''],
      ConstMetric descReconnects CounterValue (Fin 0) [''12345'', ''backyard''],
      ConstMetric descScrapeErrors CounterValue (Fin 0) [''12345'', ''backyard'']]"
    using Collect_no_obs [OF valid_labels_example(1) h0, of rt]
    by (simp add: health_metrics_def NewCollector_def)
  show "\<not> emitted rt ?c1 descWindLull"
    using emitted_gauge [OF valid_labels_example(2) g1] by simp
  show "emitted rt ?c1 descWindAvg"
    using emitted_gauge [OF valid_labels_example(2) g2] h1 by simp
  show "\<not> emitted rt ?c1 descRainStartEpoch"
    using emitted_rain [OF valid_labels_example(2), of rt] r by simp
qed

text \<open>
  C10. The specification has the health metrics sent on every scrape. The station id is the value
  of \<^verbatim>\<open>TEMPEST_STATION_ID\<close>, which \<^verbatim>\<open>main\<close> only requires to be non-empty (the
  station name it checks against a pattern of ASCII characters). With a station id that is
  not valid UTF-8, here \<^verbatim>\<open>12345\<close> followed by the byte \<^verbatim>\<open>0xFF\<close>,
  \<^verbatim>\<open>MustNewConstMetric\<close> panics on the first health metric, before and after the first
  observation: no metric is sent.
\<close>

theorem Collect_panics_on_invalid_station_id:
  "\<not> ValidString (''12345'' @ [CHR 0xFF]) \<and>
   Collector_Collect rt (NewCollector (''12345'' @ [CHR 0xFF]) ''backyard'') = None \<and>
   Collector_Collect rt
     (UpdateObservation example_observation (NewCollector (''12345'' @ [CHR 0xFF]) ''backyard''))
     = None \<and>
   sent rt (NewCollector (''12345'' @ [CHR 0xFF]) ''backyard'') = [] \<and>
   \<not> emitted rt (NewCollector (''12345'' @ [CHR 0xFF]) ''backyard'') descUp"
proof -
  have v: "\<not> ValidString (''12345'' @ [CHR 0xFF])" by simp
  then have "\<not> valid_labels (NewCollector (''12345'' @ [CHR 0xFF]) ''backyard'')"
    "\<not> valid_labels (UpdateObservation example_observation
        (NewCollector (''12345'' @ [CHR 0xFF]) ''backyard''))"
    by (simp_all add: valid_labels_def NewCollector_def UpdateObservation_def)
  then show ?thesis
    using v by (simp add: Collect_invalid sent_invalid emitted_def)
qed

section \<open>Token redaction\<close>

lemma ReplaceAll_step:
  "old \<noteq> [] \<Longrightarrow> ReplaceAll [] old new = []"
  "old \<noteq> [] \<Longrightarrow> prefix old (c # s) \<Longrightarrow>
     ReplaceAll (c # s) old new = new @ ReplaceAll (drop (length old) (c # s)) old new"
  "old \<noteq> [] \<Longrightarrow> \<not> prefix old (c # s) \<Longrightarrow>
     ReplaceAll (c # s) old new = c # ReplaceAll s old new"
  by (subst ReplaceAll.simps, simp)+

lemma ReplaceAll_prefix:
  assumes "old \<noteq> []" "new \<noteq> []"
  shows "set u \<inter> set new = {} \<Longrightarrow> prefix u (ReplaceAll s old new) \<Longrightarrow> prefix u s"
proof (induction s arbitrary: u)
  case Nil
  then show ?case using assms(1) by (simp add: ReplaceAll_step)
next
  case (Cons c s)
  show ?case
  proof (cases u)
    case Nil
    then show ?thesis by simp
  next
    case u: (Cons a u')
    show ?thesis
    proof (cases "prefix old (c # s)")
      case True
      obtain n new' where new: "new = n # new'" using assms(2) by (cases new) auto
      from Cons.prems(2) True assms(1) have "prefix u (new @ ReplaceAll (drop (length old) (c # s)) old new)"
        by (simp add: ReplaceAll_step)
      then have "a = n" using u new by simp
      then have "a \<in> set u \<inter> set new" using u new by simp
      with Cons.prems(1) show ?thesis by blast
    next
      case False
      from Cons.prems(2) False assms(1) have "prefix u (c # ReplaceAll s old new)"
        by (simp add: ReplaceAll_step)
      then have "a = c" "prefix u' (ReplaceAll s old new)" using u by simp_all
      moreover have "set u' \<inter> set new = {}" using Cons.prems(1) u by auto
      ultimately have "prefix u' s" using Cons.IH by blast
      with \<open>a = c\<close> u show ?thesis by simp
    qed
  qed
qed

lemma ReplaceAll_no_old:
  assumes "old \<noteq> []" "new \<noteq> []" "set old \<inter> set new = {}"
  shows "\<not> sublist old (ReplaceAll s old new)"
proof (induction s rule: length_induct)
  case (1 s)
  show ?case
  proof (cases s)
    case Nil
    then show ?thesis using assms(1) by (simp add: ReplaceAll_step)
  next
    case (Cons c s')
    show ?thesis
    proof (cases "prefix old s")
      case True
      let ?X = "ReplaceAll (drop (length old) s) old new"
      have out: "ReplaceAll s old new = new @ ?X"
        using True assms(1) Cons by (simp add: ReplaceAll_step)
      have "length (drop (length old) s) < length s" using assms(1) Cons by simp
      then have IH: "\<not> sublist old ?X" using 1 by blast
      show ?thesis
      proof
        assume "sublist old (ReplaceAll s old new)"
        then consider "sublist old new" | "sublist old ?X"
          | xs1 xs2 where "old = xs1 @ xs2" "suffix xs1 new" "prefix xs2 ?X"
          unfolding out sublist_append by blast
        then show False
        proof cases
          case 1
          then have "set old \<subseteq> set new" by (rule set_mono_sublist)
          with assms(1,3) show False by (cases old) auto
        next
          case 2
          with IH show False by blast
        next
          case 3
          show False
          proof (cases xs1)
            case Nil
            with 3 have "prefix old ?X" by simp
            with IH show False by blast
          next
            case (Cons a as)
            then have "a \<in> set old" using 3(1) by simp
            moreover have "a \<in> set new" using 3(2) Cons by (auto simp: suffix_def)
            ultimately show False using assms(3) by blast
          qed
        qed
      qed
    next
      case False
      have out: "ReplaceAll s old new = c # ReplaceAll s' old new"
        using False assms(1) Cons by (simp add: ReplaceAll_step)
      have IH: "\<not> sublist old (ReplaceAll s' old new)" using 1 Cons by simp
      show ?thesis
      proof
        assume "sublist old (ReplaceAll s old new)"
        then have "prefix old (ReplaceAll s old new) \<or> sublist old (ReplaceAll s' old new)"
          unfolding out by (simp add: sublist_Cons_right)
        with IH have "prefix old (ReplaceAll s old new)" by blast
        then have "prefix old s"
          using ReplaceAll_prefix [OF assms(1,2) assms(3)] by blast
        with False show False by blast
      qed
    qed
  qed
qed

lemma redactToken_hides:
  assumes "tok \<noteq> []" "set tok \<inter> set ''[REDACTED]'' = {}"
  shows "\<not> Contains (redactToken e tok) tok"
  using ReplaceAll_no_old [OF assms(1) _ assms(2)] assms(1)
  by (simp add: redactToken_def Contains_def)

lemma FetchObservation_do_error:
  "FetchObservation rt r (DoError e) =
     Inl (''fetching observations: '' @ redactToken e (RESTClient.token r))"
  by (simp add: FetchObservation_def)

lemma FetchObservation_request_error:
  "FetchObservation rt r (RequestError e) = Inl (''creating request: '' @ e)"
  by (simp add: FetchObservation_def)

lemma fallback_tick_request_error:
  assumes "\<not> isConnected (stream tk (collector s))" "disconnectedSince s = Some mark"
    "\<not> Sub (since tk) mark < th" "http tk = RequestError e"
  shows "actions (fallback_tick rt r th s tk) =
     actions s @ [Log LevelWarn ''REST fallback activated, polling for observations'' [],
       Fetch,
       Log LevelError ''REST fallback error'' [(''error'', AttrString (''creating request: '' @ e))]]"
  using assms
  by (simp add: fallback_tick_def FetchObservation_request_error on_collector_def emit_def Let_def)

text \<open>
  The URL of a fetch for the token \<^verbatim>\<open>abc123\<close> and a station id with a line feed at its
  end (the value of \<^verbatim>\<open>TEMPEST_STATION_ID\<close> is only required to be non-empty), and the
  text of the error with which \<^verbatim>\<open>url.Parse\<close> rejects it.
\<close>

lemma fetch_url_example:
  "fetch_url (NewRESTClient ''abc123'' (''12345'' @ [CHR 0x0A])) =
     ''https://swd.weatherflow.com/swd/rest/observations/station/12345'' @ [CHR 0x0A]
       @ ''?token=abc123''"
  by (simp add: fetch_url_def NewRESTClient_def defaultBaseURL_def)

lemma url_parse_error_example:
  "url_parse_error example_runtime
     (fetch_url (NewRESTClient ''abc123'' (''12345'' @ [CHR 0x0A])))
     ''net/url: invalid control character in URL'' =
   (''parse '' @ [CHR 0x22] @ ''https://swd.weatherflow.com/swd/rest/observations/station/12345''
      @ [CHR 0x5C, CHR ''n''] @ ''?token='') @ ''abc123''
     @ ([CHR 0x22] @ '': net/url: invalid control character in URL'')"
  unfolding fetch_url_example
  by (simp add: url_parse_error_def example_runtime_def quote_char_def)

lemma redact_example:
  "redactToken
     ((''parse '' @ [CHR 0x22] @ ''https://swd.weatherflow.com/swd/rest/observations/station/12345''
        @ [CHR 0x5C, CHR ''n''] @ ''?token='') @ ''abc123''
       @ ([CHR 0x22] @ '': net/url: invalid control character in URL'')) ''abc123'' =
   (''parse '' @ [CHR 0x22] @ ''https://swd.weatherflow.com/swd/rest/observations/station/12345''
      @ [CHR 0x5C, CHR ''n''] @ ''?token='') @ ''[REDACTED]''
     @ ([CHR 0x22] @ '': net/url: invalid control character in URL'')"
  by (simp add: redactToken_def ReplaceAll_step)

text \<open>
  C7. The specification has the token removed from every error returned or logged on the
  fetch path. \<^verbatim>\<open>FetchObservation\<close> passes the error of \<^verbatim>\<open>http.NewRequestWithContext\<close> on as
  it is, where it passes the error of \<^verbatim>\<open>httpClient.Do\<close> through \<^verbatim>\<open>redactToken\<close>.
  The error of a URL that does not parse quotes the URL: for the token \<^verbatim>\<open>abc123\<close> and
  a station id that ends in a line feed the error returned contains the token, and
  \<^verbatim>\<open>RunFallback\<close> logs it; the same text coming from \<^verbatim>\<open>httpClient.Do\<close> is returned
  without the token.
\<close>

theorem FetchObservation_request_error_unredacted:
  "FetchObservation rt r (RequestError e) = Inl (''creating request: '' @ e) \<and>
   FetchObservation rt r (DoError e) =
     Inl (''fetching observations: '' @ redactToken e (RESTClient.token r)) \<and>
   FetchObservation example_runtime (NewRESTClient ''abc123'' (''12345'' @ [CHR 0x0A]))
     (RequestError (url_parse_error example_runtime
        (fetch_url (NewRESTClient ''abc123'' (''12345'' @ [CHR 0x0A])))
        ''net/url: invalid control character in URL'')) =
     Inl (''creating request: parse '' @ [CHR 0x22]
          @ ''https://swd.weatherflow.com/swd/rest/observations/station/12345''
          @ [CHR 0x5C, CHR ''n''] @ ''?token=abc123'' @ [CHR 0x22]
          @ '': net/url: invalid control character in URL'') \<and>
   Contains (''creating request: parse '' @ [CHR 0x22]
          @ ''https://swd.weatherflow.com/swd/rest/observations/station/12345''
          @ [CHR 0x5C, CHR ''n''] @ ''?token=abc123'' @ [CHR 0x22]
          @ '': net/url: invalid control character in URL'') ''abc123'' \<and>
   actions (fallback_tick example_runtime (NewRESTClient ''abc123'' (''12345'' @ [CHR 0x0A]))
       (2 * Minute)
       ((fallback_start (NewCollector (''12345'' @ [CHR 0x0A]) ''backyard''))
          \<lparr>disconnectedSince := Some 0\<rparr>)
       \<lparr> stream = SetConnected False, now = 3 * Minute, since = 3 * Minute,
         http = RequestError (url_parse_error example_runtime
           (fetch_url (NewRESTClient ''abc123'' (''12345'' @ [CHR 0x0A])))
           ''net/url: invalid control character in URL'') \<rparr>) =
     [Log LevelWarn ''REST fallback activated, polling for observations'' [],
      Fetch,
      Log LevelError ''REST fallback error''
        [(''error'', AttrString (''creating request: parse '' @ [CHR 0x22]
          @ ''https://swd.weatherflow.com/swd/rest/observations/station/12345''
          @ [CHR 0x5C, CHR ''n''] @ ''?token=abc123'' @ [CHR 0x22]
          @ '': net/url: invalid control character in URL''))]] \<and>
   FetchObservation example_runtime (NewRESTClient ''abc123'' (''12345'' @ [CHR 0x0A]))
     (DoError (url_parse_error example_runtime
        (fetch_url (NewRESTClient ''abc123'' (''12345'' @ [CHR 0x0A])))
        ''net/url: invalid control character in URL'')) =
     Inl (''fetching observations: parse '' @ [CHR 0x22]
          @ ''https://swd.weatherflow.com/swd/rest/observations/station/12345''
          @ [CHR 0x5C, CHR ''n''] @ ''?token=[REDACTED]'' @ [CHR 0x22]
          @ '': net/url: invalid control character in URL'') \<and>
   \<not> Contains (''fetching observations: parse '' @ [CHR 0x22]
          @ ''https://swd.weatherflow.com/swd/rest/observations/station/12345''
          @ [CHR 0x5C, CHR ''n''] @ ''?token=[REDACTED]'' @ [CHR 0x22]
          @ '': net/url: invalid control character in URL'') ''abc123''"
proof -
  let ?r = "NewRESTClient ''abc123'' (''12345'' @ [CHR 0x0A])"
  let ?e = "url_parse_error example_runtime (fetch_url ?r)
              ''net/url: invalid control character in URL''"
  let ?pre = "''parse '' @ [CHR 0x22]
      @ ''https://swd.weatherflow.com/swd/rest/observations/station/12345''
      @ [CHR 0x5C, CHR ''n''] @ ''?token=''"
  let ?post = "[CHR 0x22] @ '': net/url: invalid control character in URL''"
  have tok: "RESTClient.token ?r = ''abc123''" by (simp add: NewRESTClient_def)
  have e: "?e = ?pre @ ''abc123'' @ ?post" by (rule url_parse_error_example)
  have 1: "FetchObservation example_runtime ?r (RequestError ?e) =
      Inl (''creating request: '' @ ?pre @ ''abc123'' @ ?post)"
    unfolding e by (simp add: FetchObservation_request_error)
  have 2: "Contains ((''creating request: '' @ ?pre) @ ''abc123'' @ ?post) ''abc123''"
    unfolding Contains_def by (rule sublist_appendI)
  have 3: "FetchObservation example_runtime ?r (DoError ?e) =
      Inl (''fetching observations: '' @ ?pre @ ''[REDACTED]'' @ ?post)"
    unfolding e FetchObservation_do_error tok redact_example by simp
  have "\<not> Contains (redactToken ?e ''abc123'') ''abc123''"
    by (rule redactToken_hides) simp_all
  then have r: "\<not> sublist ''abc123'' (?pre @ ''[REDACTED]'' @ ?post)"
    unfolding e redact_example Contains_def by simp
  have 4: "\<not> Contains (''fetching observations: '' @ ?pre @ ''[REDACTED]'' @ ?post) ''abc123''"
    using r unfolding Contains_def by (simp add: sublist_Cons_right)
  have 5: "actions (fallback_tick example_runtime ?r (2 * Minute)
       ((fallback_start (NewCollector (''12345'' @ [CHR 0x0A]) ''backyard''))
          \<lparr>disconnectedSince := Some 0\<rparr>)
       \<lparr> stream = SetConnected False, now = 3 * Minute, since = 3 * Minute,
         http = RequestError ?e \<rparr>) =
     [Log LevelWarn ''REST fallback activated, polling for observations'' [],
      Fetch,
      Log LevelError ''REST fallback error''
        [(''error'', AttrString (''creating request: '' @ ?pre @ ''abc123'' @ ?post))]]"
    unfolding e
    by (subst fallback_tick_request_error [where mark = 0])
      (simp_all add: fallback_start_def isConnected_def SetConnected_def
        Sub_def MinInt64_def MaxInt64_def Minute_def Second_def)
  show ?thesis
    using 1 2 3 4 5
    by (simp add: FetchObservation_request_error FetchObservation_do_error)
qed

section \<open>The read loop\<close>

lemma smod_100_eq_0_iff: "(k::int) smod 100 = 0 \<longleftrightarrow> 100 dvd k"
proof -
  have "k smod 100 = sgn k * (\<bar>k\<bar> mod 100)" by (simp add: signed_modulo_int_def)
  then have "k smod 100 = 0 \<longleftrightarrow> k = 0 \<or> \<bar>k\<bar> mod 100 = 0" by (simp add: sgn_eq_0_iff)
  also have "\<dots> \<longleftrightarrow> 100 dvd \<bar>k\<bar>" by (auto simp: dvd_eq_mod_eq_0)
  also have "\<dots> \<longleftrightarrow> 100 dvd k" by simp
  finally show ?thesis .
qed

lemma unparseable_count:
  "parseErrors (client (unparseable s)) = parseErrors (client s) + 1"
  by (simp add: unparseable_def Let_def emit_def)

lemma unparseable_collector: "collector (unparseable s) = collector s"
  by (simp add: unparseable_def Let_def emit_def)

lemma unparseable_actions:
  "actions (unparseable s) =
     (if parseErrors (client s) + 1 = 1 \<or> 100 dvd sint (parseErrors (client s) + 1)
      then actions s @ [unparseable_warning (sint (parseErrors (client s) + 1))]
      else actions s)"
  by (simp add: unparseable_def Let_def emit_def unparseable_warning_def smod_100_eq_0_iff)

lemma readLoop_unparseable:
  "msg_type m = None \<Longrightarrow> readLoop rt s (ReadMessage m # rs) = readLoop rt (unparseable s) rs"
  by simp

lemma sint_of_nat_small:
  "n < 2 ^ 63 \<Longrightarrow> sint (word_of_nat n :: int64) = int n"
  by (simp add: signed_of_nat signed_take_bit_int_eq_self)

lemma of_nat_eq_1_small:
  assumes "n < 2 ^ 63"
  shows "(word_of_nat n :: int64) = 1 \<longleftrightarrow> n = 1"
proof -
  have "(word_of_nat n :: int64) = 1 \<longleftrightarrow> sint (word_of_nat n :: int64) = sint (1 :: int64)"
    by (rule word_eq_iff_signed)
  also have "\<dots> \<longleftrightarrow> int n = 1" by (simp only: sint_of_nat_small [OF assms]) simp
  also have "\<dots> \<longleftrightarrow> n = 1" by simp
  finally show ?thesis .
qed

lemma readLoop_unparseable_run:
  assumes "list_all (\<lambda>m. msg_type m = None) ms"
    "parseErrors (client s) = word_of_nat k" "k + length ms < 2 ^ 63"
  shows "snd (readLoop rt s (map ReadMessage ms)) = None \<and>
     parseErrors (client (fst (readLoop rt s (map ReadMessage ms)))) = word_of_nat (k + length ms) \<and>
     collector (fst (readLoop rt s (map ReadMessage ms))) = collector s \<and>
     actions (fst (readLoop rt s (map ReadMessage ms))) =
       actions s @ map (\<lambda>c. unparseable_warning (int c)) (logged_counts k (length ms))"
  using assms
proof (induction ms arbitrary: s k)
  case Nil
  then show ?case by (simp add: logged_counts_def)
next
  case (Cons m ms)
  let ?s = "unparseable s"
  from Cons.prems have m: "msg_type m = None" and ms: "list_all (\<lambda>m. msg_type m = None) ms"
    by simp_all
  have k: "Suc k < 2 ^ 63" "Suc k + length ms < 2 ^ 63" using Cons.prems(3) by simp_all
  have cnt: "parseErrors (client s) + 1 = word_of_nat (Suc k)"
    using Cons.prems(2) by simp
  then have pe: "parseErrors (client ?s) = word_of_nat (Suc k)"
    by (simp add: unparseable_count)
  note IH = Cons.IH [OF ms pe k(2)]
  have s1: "sint (word_of_nat (Suc k) :: int64) = int (Suc k)"
    by (rule sint_of_nat_small [OF k(1)])
  have e1: "((word_of_nat (Suc k) :: int64) = 1) = (Suc k = 1)"
    by (rule of_nat_eq_1_small [OF k(1)])
  have d1: "(100 dvd int (Suc k)) = (100 dvd Suc k)"
    using int_dvd_int_iff [of 100 "Suc k"] by simp
  have lc: "logged_counts k 1 = (if Suc k = 1 \<or> 100 dvd Suc k then [Suc k] else [])"
    by (simp add: logged_counts_def)
  have act: "actions ?s = actions s @ map (\<lambda>c. unparseable_warning (int c)) (logged_counts k 1)"
    unfolding unparseable_actions cnt s1 e1 d1 lc by (simp del: of_nat_Suc)
  have u: "[Suc k..<Suc (k + Suc (length ms))] = Suc k # [Suc (Suc k)..<Suc (Suc k + length ms)]"
    by (subst upt_rec) simp
  have u1: "[Suc k..<Suc (k + 1)] = [Suc k]" by simp
  have split: "logged_counts k (Suc (length ms)) = logged_counts k 1 @ logged_counts (Suc k) (length ms)"
    unfolding logged_counts_def u u1 by (simp only: filter.simps append.simps split: if_split) simp
  have step: "readLoop rt s (map ReadMessage (m # ms)) = readLoop rt ?s (map ReadMessage ms)"
    using m by simp
  let ?r = "readLoop rt ?s (map ReadMessage ms)"
  from IH have r1: "snd ?r = None"
    and r2: "parseErrors (client (fst ?r)) = word_of_nat (Suc k + length ms)"
    and r3: "collector (fst ?r) = collector ?s"
    and r4: "actions (fst ?r) =
      actions ?s @ map (\<lambda>c. unparseable_warning (int c)) (logged_counts (Suc k) (length ms))"
    by blast+
  have len: "k + length (m # ms) = Suc k + length ms" by simp
  have r4': "actions (fst ?r) =
      actions s @ map (\<lambda>c. unparseable_warning (int c)) (logged_counts k (length (m # ms)))"
    unfolding r4 act by (simp add: split)
  show ?case
    unfolding step len using r1 r2 r3 r4' unfolding len unparseable_collector by blast
qed

text \<open>
  C9. A message whose envelope does not parse adds 1 to the parse-error counter, is logged
  exactly when the new count is 1 or a multiple of 100, leaves the store alone, and the
  loop goes on with the next read. For a run of such messages from count \<open>k\<close> the loop
  has not returned, the counter has advanced by their number, and the warnings are those
  of the counts 1 and the multiples of 100.
\<close>

theorem unparseable_counted:
  "(msg_type m = None \<longrightarrow>
      readLoop rt s (ReadMessage m # rs) = readLoop rt (unparseable s) rs) \<and>
   parseErrors (client (unparseable s)) = parseErrors (client s) + 1 \<and>
   collector (unparseable s) = collector s \<and>
   actions (unparseable s) =
     (if parseErrors (client s) + 1 = 1 \<or> 100 dvd sint (parseErrors (client s) + 1)
      then actions s @ [unparseable_warning (sint (parseErrors (client s) + 1))]
      else actions s) \<and>
   (list_all (\<lambda>m. msg_type m = None) ms \<and> parseErrors (client s) = word_of_nat k \<and>
    k + length ms < 2 ^ 63 \<longrightarrow>
      snd (readLoop rt s (map ReadMessage ms)) = None \<and>
      parseErrors (client (fst (readLoop rt s (map ReadMessage ms)))) =
        word_of_nat (k + length ms) \<and>
      collector (fst (readLoop rt s (map ReadMessage ms))) = collector s \<and>
      actions (fst (readLoop rt s (map ReadMessage ms))) =
        actions s @ map (\<lambda>c. unparseable_warning (int c)) (logged_counts k (length ms)))"
proof (intro conjI impI)
  show "readLoop rt s (ReadMessage m # rs) = readLoop rt (unparseable s) rs"
    if "msg_type m = None"
    using that by (rule readLoop_unparseable)
  show "parseErrors (client (unparseable s)) = parseErrors (client s) + 1"
    by (rule unparseable_count)
  show "collector (unparseable s) = collector s"
    by (rule unparseable_collector)
  show "actions (unparseable s) =
     (if parseErrors (client s) + 1 = 1 \<or> 100 dvd sint (parseErrors (client s) + 1)
      then actions s @ [unparseable_warning (sint (parseErrors (client s) + 1))]
      else actions s)"
    by (rule unparseable_actions)
next
  assume a: "list_all (\<lambda>m. msg_type m = None) ms \<and> parseErrors (client s) = word_of_nat k \<and>
    k + length ms < 2 ^ 63"
  then have r: "snd (readLoop rt s (map ReadMessage ms)) = None \<and>
     parseErrors (client (fst (readLoop rt s (map ReadMessage ms)))) = word_of_nat (k + length ms) \<and>
     collector (fst (readLoop rt s (map ReadMessage ms))) = collector s \<and>
     actions (fst (readLoop rt s (map ReadMessage ms))) =
       actions s @ map (\<lambda>c. unparseable_warning (int c)) (logged_counts k (length ms))"
    by (intro readLoop_unparseable_run) simp_all
  from r show "snd (readLoop rt s (map ReadMessage ms)) = None" by blast
  from r show "parseErrors (client (fst (readLoop rt s (map ReadMessage ms)))) =
    word_of_nat (k + length ms)" by blast
  from r show "collector (fst (readLoop rt s (map ReadMessage ms))) = collector s" by blast
  from r show "actions (fst (readLoop rt s (map ReadMessage ms))) =
       actions s @ map (\<lambda>c. unparseable_warning (int c)) (logged_counts k (length ms))" by blast
qed

lemma logged_counts_100: "logged_counts 0 100 = [1, 100]"
proof -
  have "[Suc 0..<2 + 98] = [Suc 0..<2] @ [2..<2 + 98]"
    by (rule upt_add_eq_append) simp
  moreover have "[Suc 0..<100 + 1] = [Suc 0..<100] @ [100..<100 + 1]"
    by (rule upt_add_eq_append) simp
  ultimately have "[Suc 0..<Suc (0 + 100)] = ([Suc 0..<2] @ [2..<100]) @ [100..<101]"
    by simp
  moreover have "[Suc 0..<2] = [1]" by (simp add: upt_conv_Cons)
  moreover have "[100..<101] = [100::nat]" by (simp add: upt_conv_Cons)
  moreover have "filter (\<lambda>c. c = 1 \<or> 100 dvd c) [2..<100] = []"
    by (auto simp: filter_empty_conv dest: dvd_imp_le)
  ultimately show ?thesis by (simp add: logged_counts_def)
qed

theorem unparseable_counted_witness:
  "msg_type bad_message = None \<and>
   list_all (\<lambda>m. msg_type m = None) (replicate 100 bad_message) \<and>
   parseErrors (client (stream_start (NewClient ''abc123'' ''12345'')
      (NewCollector ''12345'' ''backyard''))) = word_of_nat 0 \<and>
   0 + length (replicate 100 bad_message) < (2::nat) ^ 63 \<and>
   snd (readLoop example_runtime
      (stream_start (NewClient ''abc123'' ''12345'') (NewCollector ''12345'' ''backyard''))
      (map ReadMessage (replicate 100 bad_message))) = None \<and>
   parseErrors (client (fst (readLoop example_runtime
      (stream_start (NewClient ''abc123'' ''12345'') (NewCollector ''12345'' ''backyard''))
      (map ReadMessage (replicate 100 bad_message))))) = 100 \<and>
   actions (fst (readLoop example_runtime
      (stream_start (NewClient ''abc123'' ''12345'') (NewCollector ''12345'' ''backyard''))
      (map ReadMessage (replicate 100 bad_message)))) =
     [unparseable_warning 1, unparseable_warning 100]"
proof -
  let ?s = "stream_start (NewClient ''abc123'' ''12345'') (NewCollector ''12345'' ''backyard'')"
  let ?ms = "replicate 100 bad_message"
  have h1: "msg_type bad_message = None" by (simp add: bad_message_def)
  have h2: "list_all (\<lambda>m. msg_type m = None) ?ms" by (simp add: list_all_iff bad_message_def)
  have h3: "parseErrors (client ?s) = word_of_nat 0" by (simp add: stream_start_def NewClient_def)
  have h4: "0 + length ?ms < (2::nat) ^ 63" by simp
  have a0: "actions ?s = []" by (simp add: stream_start_def)
  from unparseable_counted [where ms = ?ms and s = ?s and k = 0 and rt = example_runtime] h2 h3 h4
  have "snd (readLoop example_runtime ?s (map ReadMessage ?ms)) = None \<and>
      parseErrors (client (fst (readLoop example_runtime ?s (map ReadMessage ?ms)))) =
        word_of_nat (0 + length ?ms) \<and>
      actions (fst (readLoop example_runtime ?s (map ReadMessage ?ms))) =
        actions ?s @ map (\<lambda>c. unparseable_warning (int c)) (logged_counts 0 (length ?ms))"
    by blast
  then show ?thesis using h1 h2 h3 h4 by (simp add: a0 logged_counts_100)
qed

section \<open>Reconnection\<close>

lemma waits_emit_Log [simp]: "waits (emit (Log l msg as) s) = waits s"
  by (simp add: waits_def emit_def)

lemma waits_emit_After [simp]: "waits (emit (After d) s) = waits s @ [d]"
  by (simp add: waits_def emit_def)

lemma waits_on_collector [simp]: "waits (on_collector f s) = waits s"
  by (simp add: waits_def on_collector_def)

lemma waits_client_update [simp]: "waits (s\<lparr>client := c\<rparr>) = waits s"
  by (simp add: waits_def)

lemma client_emit [simp]: "client (emit a s) = client s"
  by (simp add: emit_def)

lemma client_on_collector [simp]: "client (on_collector f s) = client s"
  by (simp add: on_collector_def)

lemma collector_emit [simp]: "collector (emit a s) = collector s"
  by (simp add: emit_def)

lemma collector_on_collector [simp]: "collector (on_collector f s) = f (collector s)"
  by (simp add: on_collector_def)


lemma reconnects_simps [simp]:
  "reconnects (UpdateObservation ob c) = reconnects c"
  "reconnects (SetConnected b c) = reconnects c"
  "reconnects (SetRainStart e c) = reconnects c"
  "reconnects (IncrReconnects rt c) = f_add rt (reconnects c) (Fin 1)"
  by (simp_all add: UpdateObservation_def SetConnected_def SetRainStart_def IncrReconnects_def)

lemma unchanged_refl [simp]: "unchanged s s"
  by (simp add: unchanged_def)

lemma unchanged_trans: "unchanged s s1 \<Longrightarrow> unchanged s1 s2 \<Longrightarrow> unchanged s s2"
  by (simp add: unchanged_def)

lemma unchanged_dispatch: "unchanged s (dispatch rt t m s)"
  by (simp add: unchanged_def dispatch_def handleObsST_def handleStrike_def handlePrecip_def
      Let_def split: option.split sum.split)

lemma unchanged_unparseable: "unchanged s (unparseable s)"
  by (simp add: unchanged_def unparseable_def Let_def)

lemma readLoop_unchanged: "unchanged s (fst (readLoop rt s rs))"
proof (induction rt s rs rule: readLoop.induct)
  case (1 rt s)
  then show ?case by simp
next
  case (2 rt s e rs)
  then show ?case by simp
next
  case (3 rt s m rs)
  show ?case
  proof (cases "msg_type m")
    case None
    then have "unchanged (unparseable s) (fst (readLoop rt s (ReadMessage m # rs)))"
      using 3(1) by simp
    then show ?thesis using unchanged_unparseable unchanged_trans by blast
  next
    case (Some t)
    then have "unchanged (dispatch rt t m s) (fst (readLoop rt s (ReadMessage m # rs)))"
      using 3(2) by simp
    then show ?thesis using unchanged_dispatch unchanged_trans by blast
  qed
qed

lemma readLoop_returns:
  "(\<exists>y. snd (readLoop rt s rs) = Some y) \<longleftrightarrow> list_ex is_ReadError rs"
proof (induction rt s rs rule: readLoop.induct)
  case (3 rt s m rs)
  then show ?case by (cases "msg_type m") auto
qed simp_all

lemma connectAndRead_unchanged: "unchanged s (fst (connectAndRead rt s ss))"
proof -
  let ?s3 = "(emit (Log LevelInfo ''websocket connected''
                [(''device_id'', AttrString (deviceID (client s)))])
              (on_collector (SetConnected True) s))
        \<lparr>client := (client (emit (Log LevelInfo ''websocket connected''
                [(''device_id'', AttrString (deviceID (client s)))])
              (on_collector (SetConnected True) s)))\<lparr>parseErrors := 0\<rparr>\<rparr>"
  have "unchanged s ?s3" by (simp add: unchanged_def)
  then have "unchanged s (fst (readLoop rt ?s3 (reads ss)))"
    using unchanged_trans readLoop_unchanged by blast
  then show ?thesis
    by (simp add: connectAndRead_def Let_def split: option.split sum.split)
qed

lemma connectAndRead_returns:
  "snd (connectAndRead rt s ss) \<noteq> None \<longleftrightarrow> session_ends rt (deviceID (client s)) ss"
proof (cases "dial_err ss")
  case (Some e)
  then show ?thesis by (simp add: connectAndRead_def session_ends_def)
next
  case d: None
  show ?thesis
  proof (cases "Atoi rt (deviceID (client s))")
    case (Inl e)
    with d show ?thesis by (simp add: connectAndRead_def session_ends_def)
  next
    case a: (Inr n)
    show ?thesis
    proof (cases "write_err ss")
      case (Some e)
      with d a show ?thesis by (simp add: connectAndRead_def session_ends_def)
    next
      case None
      with d a show ?thesis
        by (simp add: connectAndRead_def session_ends_def Let_def readLoop_returns)
    qed
  qed
qed


text \<open>
  Over cycles that all fail with no cancellation observed, \<^verbatim>\<open>Run\<close> has not returned
  and the timers started are \<open>backoff_waits\<close>.
\<close>

lemma Run_loop_failed:
  assumes "list_all (failed_cycle rt (deviceID (client s))) cys"
  shows "\<exists>s'. Run_loop rt b s cys = (s', last (b # map (\<lambda>w. min (2 * w) maxBackoff) (backoff_waits b cys)), False) \<and>
     waits s' = waits s @ backoff_waits b cys \<and>
     reconnects (collector s') = ((\<lambda>x. f_add rt x (Fin 1)) ^^ length cys) (reconnects (collector s))"
  using assms
proof (induction cys arbitrary: s b)
  case Nil
  then show ?case by simp
next
  case (Cons cy cys)
  let ?dev = "deviceID (client s)"
  from Cons.prems(1) have fc: "failed_cycle rt ?dev cy"
    and rest: "list_all (failed_cycle rt ?dev) cys"
    by simp_all
  from fc have cy: "session_ends rt ?dev (session cy)" "\<not> ctx_err cy" "\<not> ctx_done cy"
    by (simp_all add: failed_cycle_def)
  obtain s1 r1 where car: "connectAndRead rt s (session cy) = (s1, r1)"
    by (cases "connectAndRead rt s (session cy)")
  with cy(1) obtain err where err: "r1 = Some err"
    using connectAndRead_returns [of rt s "session cy"] by auto
  have u: "unchanged s s1" using connectAndRead_unchanged [of s rt "session cy"] car by simp
  define w where "w = (if since_start cy > 2 * Minute then Second else b)"
  define s4 where "s4 = emit (After w) (emit (Log LevelWarn ''websocket disconnected''
                             [(''error'', AttrString err), (''reconnect_in'', AttrDuration w)])
             (on_collector (IncrReconnects rt) (on_collector (SetConnected False) s1)))"
  define b3 where "b3 = min (2 * w) maxBackoff"
  have step: "Run_loop rt b s (cy # cys) = Run_loop rt b3 s4 cys"
    using car err cy(2,3) by (simp add: Let_def w_def s4_def b3_def min_def mult.commute)
  have d4: "deviceID (client s4) = ?dev" using u by (simp add: s4_def unchanged_def)
  have r4: "reconnects (collector s4) = f_add rt (reconnects (collector s)) (Fin 1)"
    using u by (simp add: s4_def unchanged_def)
  have w4: "waits s4 = waits s @ [w]" using u by (simp add: s4_def unchanged_def)
  from rest d4 have rest4: "list_all (failed_cycle rt (deviceID (client s4))) cys" by simp
  from Cons.IH [OF rest4, of b3] obtain s' where
    s': "Run_loop rt b3 s4 cys = (s', last (b3 # map (\<lambda>w. min (2 * w) maxBackoff) (backoff_waits b3 cys)), False)"
      "waits s' = waits s4 @ backoff_waits b3 cys"
      "reconnects (collector s') =
         ((\<lambda>x. f_add rt x (Fin 1)) ^^ length cys) (reconnects (collector s4))"
    by blast
  have bw: "backoff_waits b (cy # cys) = w # backoff_waits b3 cys"
    by (simp add: w_def b3_def Let_def)
  show ?case
    unfolding step bw using s' w4 r4
    by (simp add: b3_def funpow_swap1 [of "\<lambda>x. f_add rt x (Fin 1)"])
qed

text \<open>
  The reconnect counter is a float64: an increment adds exactly 1 as long as the sum is
  a float64, which every whole number up to \<open>2\<^sup>5\<^sup>3\<close> is.
\<close>

lemma count_reconnects:
  assumes "\<forall>j. k < j \<and> j \<le> k + n \<longrightarrow> rnd rt (real j) = Fin (real j)"
  shows "((\<lambda>x. f_add rt x (Fin 1)) ^^ n) (Fin (real k)) = Fin (real (k + n))"
  using assms
proof (induction n)
  case 0
  then show ?case by simp
next
  case (Suc n)
  have IH: "((\<lambda>x. f_add rt x (Fin 1)) ^^ n) (Fin (real k)) = Fin (real (k + n))"
    using Suc by simp
  have "k < Suc (k + n) \<and> Suc (k + n) \<le> k + Suc n" by simp
  with Suc.prems have "rnd rt (real (Suc (k + n))) = Fin (real (Suc (k + n)))"
    by blast
  moreover have "real (Suc (k + n)) = real (k + n) + 1" by simp
  ultimately have r: "rnd rt (real (k + n) + 1) = Fin (real (k + n) + 1)" by (simp only:)
  have "((\<lambda>x. f_add rt x (Fin 1)) ^^ Suc n) (Fin (real k)) = f_add rt (Fin (real (k + n))) (Fin 1)"
    by (simp only: funpow.simps o_apply IH)
  also have "\<dots> = Fin (real (k + n) + 1)" by (simp only: f_add.simps r)
  also have "\<dots> = Fin (real (k + Suc n))" by simp
  finally show ?case .
qed

lemma length_backoff_waits [simp]: "length (backoff_waits b cys) = length cys"
  by (induction cys arbitrary: b) (simp_all add: Let_def)

lemma backoff_waits_quick_from:
  assumes "list_all quick cys" "0 < b" "b \<le> maxBackoff"
  shows "backoff_waits b cys = map (\<lambda>i. min (2 ^ i * b) maxBackoff) [0..<length cys]"
  using assms
proof (induction cys arbitrary: b)
  case Nil
  then show ?case by simp
next
  case (Cons cy cys)
  from Cons.prems(1) have qc: "quick cy" and rest: "list_all quick cys"
    by simp_all
  from qc have q: "\<not> since_start cy > 2 * Minute" by (simp add: quick_def)
  define b1 where "b1 = min (2 * b) maxBackoff"
  have mpos: "0 < maxBackoff" by (simp add: maxBackoff_def Second_def)
  have b1: "0 < b1" "b1 \<le> maxBackoff" using Cons.prems(2) mpos by (simp_all add: b1_def)
  have eq: "min (2 ^ i * b1) maxBackoff = min (2 ^ Suc i * b) maxBackoff" for i
  proof (cases "2 * b \<le> maxBackoff")
    case True
    then show ?thesis by (simp add: b1_def min_def mult.assoc mult.left_commute)
  next
    case False
    then have b1m: "b1 = maxBackoff" by (simp add: b1_def)
    have one: "(1::int) \<le> 2 ^ i" by simp
    have le1: "maxBackoff \<le> 2 ^ i * maxBackoff"
      using mult_right_mono [OF one, of maxBackoff] mpos by simp
    have "2 ^ i * maxBackoff \<le> 2 ^ i * (2 * b)"
      using False by (intro mult_left_mono) simp_all
    also have "2 ^ i * (2 * b) = 2 ^ Suc i * b" by simp
    finally have le2: "maxBackoff \<le> 2 ^ Suc i * b" using le1 by linarith
    have "min (2 ^ i * maxBackoff) maxBackoff = maxBackoff" using le1 by (rule min_absorb2)
    moreover have "min (2 ^ Suc i * b) maxBackoff = maxBackoff" using le2 by (rule min_absorb2)
    ultimately show ?thesis unfolding b1m by (simp only:)
  qed
  have "backoff_waits b (cy # cys) = b # backoff_waits b1 cys"
    using q by (simp add: Let_def b1_def)
  also have "backoff_waits b1 cys = map (\<lambda>i. min (2 ^ i * b1) maxBackoff) [0..<length cys]"
    using Cons.IH [OF rest b1] .
  also have "\<dots> = map (\<lambda>i. min (2 ^ Suc i * b) maxBackoff) [0..<length cys]"
    using eq by simp
  finally show ?case
    using Cons.prems(3) by (simp add: map_upt_Suc del: upt_Suc power_Suc)
qed

lemma backoff_waits_reset:
  "i < length cys \<Longrightarrow> since_start (cys ! i) > 2 * Minute \<Longrightarrow> backoff_waits b cys ! i = Second"
proof (induction cys arbitrary: i b)
  case Nil
  then show ?case by simp
next
  case (Cons cy cys)
  then show ?case by (cases i) (simp_all add: Let_def)
qed


text \<open>
  What the code does over cycles that all fail with no cancellation observed: \<^verbatim>\<open>Run\<close> has not returned, the reconnect counter has grown by
  1 per cycle (as long as the count is a float64) and the timers started are
  \<open>backoff_waits\<close> from one second. When \<^verbatim>\<open>time.Since(start)\<close> is at most two minutes in
  every cycle these are 1, 2, 4, ... seconds capped at 60; a cycle in which it is more than
  two minutes waits one second whatever the backoff was.
\<close>

lemma Run_backoff:
  "(list_all (failed_cycle rt (deviceID (client s))) cys \<longrightarrow>
      (\<exists>s' b'. Run rt s cys = (s', b', False) \<and>
         waits s' = waits s @ backoff_waits Second cys \<and>
         (reconnects (collector s) = Fin (real k) \<and>
          (\<forall>j. k < j \<and> j \<le> k + length cys \<longrightarrow> rnd rt (real j) = Fin (real j)) \<longrightarrow>
            reconnects (collector s') = Fin (real (k + length cys))))) \<and>
   (list_all quick cys \<longrightarrow>
      backoff_waits Second cys =
        map (\<lambda>i. min (2 ^ i * Second) maxBackoff) [0..<length cys]) \<and>
   (i < length cys \<and> since_start (cys ! i) > 2 * Minute \<longrightarrow>
      backoff_waits b cys ! i = Second)"
proof (intro conjI impI)
  assume a1: "list_all (failed_cycle rt (deviceID (client s))) cys"
  from Run_loop_failed [OF a1, of Second] obtain s' where
    s': "Run_loop rt Second s cys =
       (s', last (Second # map (\<lambda>w. min (2 * w) maxBackoff) (backoff_waits Second cys)), False)"
    "waits s' = waits s @ backoff_waits Second cys"
    "reconnects (collector s') =
       ((\<lambda>x. f_add rt x (Fin 1)) ^^ length cys) (reconnects (collector s))"
    by blast
  have "reconnects (collector s') = Fin (real (k + length cys))"
    if "reconnects (collector s) = Fin (real k) \<and>
        (\<forall>j. k < j \<and> j \<le> k + length cys \<longrightarrow> rnd rt (real j) = Fin (real j))"
    using that s'(3) count_reconnects [of k "length cys" rt] by simp
  with s'(1,2) show "\<exists>s' b'. Run rt s cys = (s', b', False) \<and>
         waits s' = waits s @ backoff_waits Second cys \<and>
         (reconnects (collector s) = Fin (real k) \<and>
          (\<forall>j. k < j \<and> j \<le> k + length cys \<longrightarrow> rnd rt (real j) = Fin (real j)) \<longrightarrow>
            reconnects (collector s') = Fin (real (k + length cys)))"
    unfolding Run_def by blast
next
  assume "list_all quick cys"
  then show "backoff_waits Second cys =
        map (\<lambda>i. min (2 ^ i * Second) maxBackoff) [0..<length cys]"
    by (intro backoff_waits_quick_from) (simp_all add: Second_def maxBackoff_def)
next
  assume "i < length cys \<and> since_start (cys ! i) > 2 * Minute"
  then show "backoff_waits b cys ! i = Second"
    using backoff_waits_reset by blast
qed

lemma failed_dial: "dial_err (session cy) = Some e \<Longrightarrow> \<not> ctx_err cy \<Longrightarrow> \<not> ctx_done cy \<Longrightarrow>
    failed_cycle rt dev cy"
  by (simp add: failed_cycle_def session_ends_def)

lemma replicate_8: "replicate 8 x = [x, x, x, x, x, x, x, x]"
  by (simp add: numeral_eq_Suc)

lemma since_start_examples:
  "since_start quick_failure = 1000000000" "since_start long_session = 180000000000"
  by (simp_all add: quick_failure_def long_session_def Second_def Minute_def)

lemma backoff_waits_step:
  "backoff_waits b (cy # cys) =
     (if since_start cy > 120000000000 then 1000000000 # backoff_waits 2000000000 cys
      else b # backoff_waits (min (2 * b) 60000000000) cys)"
  by (simp add: Let_def Second_def Minute_def maxBackoff_def)

lemma example_waits:
  "backoff_waits Second (replicate 8 quick_failure @ [long_session, quick_failure]) =
     [1000000000, 2000000000, 4000000000, 8000000000, 16000000000, 32000000000,
      60000000000, 60000000000, 1000000000, 2000000000]"
  unfolding replicate_8 append.simps
  by (simp only: backoff_waits_step since_start_examples backoff_waits.simps(1) Second_def) simp


text \<open>
  Eight dials refused within a second each wait 1, 2, 4, 8, 16, 32, 60 and 60 seconds.
\<close>

lemma Run_quick_failures:
  "\<exists>s' b'. Run rt (stream_start (NewClient ''abc123'' ''12345'') (NewCollector ''12345'' ''backyard''))
      (replicate 8 quick_failure) = (s', b', False) \<and>
    waits s' = [1000000000, 2000000000, 4000000000, 8000000000, 16000000000, 32000000000,
         60000000000, 60000000000]"
proof -
  let ?s = "stream_start (NewClient ''abc123'' ''12345'') (NewCollector ''12345'' ''backyard'')"
  have f: "list_all (failed_cycle rt (deviceID (client ?s))) (replicate 8 quick_failure)"
    by (simp add: list_all_iff failed_dial quick_failure_def)
  have w0: "waits ?s = []" by (simp add: stream_start_def waits_def)
  have bw: "backoff_waits Second (replicate 8 quick_failure) =
     [1000000000, 2000000000, 4000000000, 8000000000, 16000000000, 32000000000,
      60000000000, 60000000000]"
    unfolding replicate_8
    by (simp only: backoff_waits_step since_start_examples backoff_waits.simps(1) Second_def) simp
  from Run_loop_failed [OF f, of Second] obtain s' b' where
    "Run_loop rt Second ?s (replicate 8 quick_failure) = (s', b', False)"
    "waits s' = waits ?s @ backoff_waits Second (replicate 8 quick_failure)"
    by blast
  then show ?thesis unfolding Run_def w0 bw by (intro exI [of _ s'] exI [of _ b']) simp
qed

lemma Run_loop_dial_failure:
  assumes "dial_err (session cy) = Some e" "\<not> ctx_err cy" "\<not> ctx_done cy"
  shows "Run_loop rt b s (cy # cys) =
     Run_loop rt
       (min (2 * (if since_start cy > 2 * Minute then Second else b)) maxBackoff)
       (emit (After (if since_start cy > 2 * Minute then Second else b))
          (emit (Log LevelWarn ''websocket disconnected''
                   [(''error'', AttrString (''websocket dial failed: ''
                        @ redactToken e (Client.token (client s)))),
                    (''reconnect_in'',
                       AttrDuration (if since_start cy > 2 * Minute then Second else b))])
             (on_collector (IncrReconnects rt) (on_collector (SetConnected False) s))))
       cys"
  using assms by (simp add: connectAndRead_def Let_def min_def mult.commute)

lemma slow_dial_failure_simps:
  "dial_err (session slow_dial_failure) = Some ''connect: connection timed out''"
  "\<not> ctx_err slow_dial_failure" "\<not> ctx_done slow_dial_failure"
  "since_start slow_dial_failure = 130000000000"
  by (simp_all add: slow_dial_failure_def Second_def)

lemma replicate_4: "replicate 4 x = [x, x, x, x]"
  by (simp add: numeral_eq_Suc)

lemma redact_timeout:
  "redactToken ''connect: connection timed out'' ''abc123'' = ''connect: connection timed out''"
  by (simp add: redactToken_def ReplaceAll_step)

text \<open>
  C3. The specification has the backoff reset when the prior connected session lasted
  longer than two minutes, as the comment in \<^verbatim>\<open>Run\<close> has it (the connection was up
  for a while), and has failures whose session lasted at most two minutes wait 1, 2, 4, ...
  seconds.
  The code resets on \<^verbatim>\<open>time.Since(start)\<close>, which is read from before the dial. A dial
  that fails after 130 seconds, with no session at all, resets the backoff: four such
  failures in a row wait one second each, the store is never set connected and no
  connection is logged.
\<close>

theorem Run_slow_dial_resets_backoff:
  "Run rt (stream_start (NewClient ''abc123'' ''12345'') (NewCollector ''12345'' ''backyard''))
     (replicate 4 slow_dial_failure) =
   (fst (Run rt (stream_start (NewClient ''abc123'' ''12345'') (NewCollector ''12345'' ''backyard''))
      (replicate 4 slow_dial_failure)), 2000000000, False) \<and>
   waits (fst (Run rt
      (stream_start (NewClient ''abc123'' ''12345'') (NewCollector ''12345'' ''backyard''))
      (replicate 4 slow_dial_failure))) =
     [1000000000, 1000000000, 1000000000, 1000000000] \<and>
   actions (fst (Run rt
      (stream_start (NewClient ''abc123'' ''12345'') (NewCollector ''12345'' ''backyard''))
      (replicate 4 slow_dial_failure))) =
     [Log LevelWarn ''websocket disconnected''
        [(''error'', AttrString ''websocket dial failed: connect: connection timed out''),
         (''reconnect_in'', AttrDuration 1000000000)],
      After 1000000000,
      Log LevelWarn ''websocket disconnected''
        [(''error'', AttrString ''websocket dial failed: connect: connection timed out''),
         (''reconnect_in'', AttrDuration 1000000000)],
      After 1000000000,
      Log LevelWarn ''websocket disconnected''
        [(''error'', AttrString ''websocket dial failed: connect: connection timed out''),
         (''reconnect_in'', AttrDuration 1000000000)],
      After 1000000000,
      Log LevelWarn ''websocket disconnected''
        [(''error'', AttrString ''websocket dial failed: connect: connection timed out''),
         (''reconnect_in'', AttrDuration 1000000000)],
      After 1000000000] \<and>
   connected (collector (fst (Run rt
      (stream_start (NewClient ''abc123'' ''12345'') (NewCollector ''12345'' ''backyard''))
      (replicate 4 slow_dial_failure)))) = False \<and>
   session slow_dial_failure =
     \<lparr> dial_err = Some ''connect: connection timed out'', write_err = None, reads = [] \<rparr> \<and>
   since_start slow_dial_failure = 130 * Second"
proof -
  let ?s = "stream_start (NewClient ''abc123'' ''12345'') (NewCollector ''12345'' ''backyard'')"
  have tok: "Client.token (client ?s) = ''abc123''" by (simp add: stream_start_def NewClient_def)
  have a0: "actions ?s = []" by (simp add: stream_start_def)
  define step :: "StreamState \<Rightarrow> StreamState" where
    "step = (\<lambda>s. emit (After 1000000000) (emit (Log LevelWarn ''websocket disconnected''
        [(''error'', AttrString ''websocket dial failed: connect: connection timed out''),
         (''reconnect_in'', AttrDuration 1000000000)])
      (on_collector (IncrReconnects rt) (on_collector (SetConnected False) s))))"
  have tok': "Client.token (client (step s)) = Client.token (client s)" for s
    by (simp add: step_def)
  have one: "Run_loop rt b s (slow_dial_failure # cys) = Run_loop rt 2000000000 (step s) cys"
    if "Client.token (client s) = ''abc123''" for b s cys
    by (subst Run_loop_dial_failure [where e = "''connect: connection timed out''"])
      (simp_all add: slow_dial_failure_simps that redact_timeout step_def
        Minute_def Second_def maxBackoff_def)
  have run: "Run rt ?s (replicate 4 slow_dial_failure) =
    (step (step (step (step ?s))), 2000000000, False)"
    unfolding Run_def replicate_4
    by (simp add: one tok tok' del: Run_loop.simps(2))
  show ?thesis
    unfolding run
    by (simp add: step_def a0 emit_def on_collector_def SetConnected_def IncrReconnects_def
        waits_def slow_dial_failure_def Second_def)
qed

section \<open>The polling fallback\<close>

lemma fetches_emit_Fetch [simp]: "fetches (emit Fetch s) = Suc (fetches s)"
  by (simp add: fetches_def emit_def)

lemma fetches_emit_Log [simp]: "fetches (emit (Log l msg as) s) = fetches s"
  by (simp add: fetches_def emit_def)

lemma fetches_on_collector [simp]: "fetches (on_collector f s) = fetches s"
  by (simp add: fetches_def on_collector_def)

lemma fetches_marker_update [simp]: "fetches (s\<lparr>disconnectedSince := x\<rparr>) = fetches s"
  by (simp add: fetches_def)

lemma marker_emit [simp]: "disconnectedSince (emit a s) = disconnectedSince s"
  by (simp add: emit_def)

lemma marker_on_collector [simp]: "disconnectedSince (on_collector f s) = disconnectedSince s"
  by (simp add: on_collector_def)

lemma tick_fetches:
  "fetches (fallback_tick rt r th s tk) =
     (if \<not> tick_connected s tk \<and> threshold_elapsed th s tk then Suc (fetches s) else fetches s)"
  by (simp add: fallback_tick_def tick_connected_def threshold_elapsed_def Let_def
      split: option.split sum.split)

lemma tick_marker:
  "disconnectedSince (fallback_tick rt r th s tk) =
     (if tick_connected s tk then None
      else case disconnectedSince s of None \<Rightarrow> Some (now tk) | Some t0 \<Rightarrow> Some t0)"
  by (simp add: fallback_tick_def tick_connected_def Let_def split: option.split sum.split)

lemma Sub_mono: "t \<le> t' \<Longrightarrow> Sub t u \<le> Sub t' u"
  by (simp add: Sub_def min_def max_def)

lemma tick_collector_connected:
  "isConnected (collector (fallback_tick rt r th s tk)) = tick_connected s tk"
  by (simp add: fallback_tick_def tick_connected_def on_collector_def emit_def isConnected_def
      UpdateObservation_def Let_def split: option.split sum.split)

text \<open>The run tick by tick.\<close>

lemma state_after_0: "0 < p \<Longrightarrow> state_after rt r th p s tks 0 = s"
  by (simp add: state_after_def RunFallback_def)

lemma state_after_Suc:
  assumes "0 < p" "i < length tks"
  shows "state_after rt r th p s tks (Suc i) =
     fallback_tick rt r th (state_after rt r th p s tks i) (tks ! i)"
  using assms by (simp add: state_after_def RunFallback_def take_Suc_conv_app_nth)

lemma RunFallback_state_after:
  "0 < p \<Longrightarrow> RunFallback rt r th p s tks = Some (state_after rt r th p s tks (length tks))"
  by (simp add: state_after_def RunFallback_def)

lemma fetches_at:
  assumes "0 < p" "i < length tks"
  shows "fetches (state_after rt r th p s tks (Suc i)) =
     (if fetched_at rt r th p s tks i then Suc (fetches (state_after rt r th p s tks i))
      else fetches (state_after rt r th p s tks i))"
  unfolding fetched_at_def state_after_Suc [OF assms] by (simp add: tick_fetches)

lemma fetched_at_iff:
  assumes "0 < p" "i < length tks"
  shows "fetched_at rt r th p s tks i \<longleftrightarrow>
     \<not> connected_at rt r th p s tks i \<and>
     (\<exists>t0. marker_at rt r th p s tks i = Some t0 \<and> th \<le> Sub (since (tks ! i)) t0)"
  unfolding fetched_at_def connected_at_def marker_at_def state_after_Suc [OF assms]
  by (auto simp: tick_fetches threshold_elapsed_def split: option.splits)

lemma marker_at_Suc:
  assumes "0 < p" "i < length tks"
  shows "marker_at rt r th p s tks (Suc i) =
     (if connected_at rt r th p s tks i then None
      else case marker_at rt r th p s tks i of None \<Rightarrow> Some (now (tks ! i)) | Some t0 \<Rightarrow> Some t0)"
  unfolding connected_at_def marker_at_def state_after_Suc [OF assms] by (rule tick_marker)

text \<open>
  A marker is the clock reading of the tick that recorded it: a tick that found the store
  disconnected and no marker, with every tick since then disconnected as well.
\<close>

lemma marker_origin:
  assumes "0 < p" "marker_at rt r th p s tks 0 = None"
  shows "i \<le> length tks \<Longrightarrow> marker_at rt r th p s tks i = Some t0 \<Longrightarrow>
     \<exists>j<i. t0 = now (tks ! j) \<and> marker_at rt r th p s tks j = None \<and>
       (\<forall>k. j \<le> k \<and> k < i \<longrightarrow> \<not> connected_at rt r th p s tks k)"
proof (induction i)
  case 0
  then show ?case using assms(2) by simp
next
  case (Suc i)
  then have i: "i < length tks" by simp
  note m = marker_at_Suc [OF assms(1) i, of rt r th s]
  from Suc.prems(2) m have nc: "\<not> connected_at rt r th p s tks i" by (auto split: if_splits)
  show ?case
  proof (cases "marker_at rt r th p s tks i")
    case None
    with Suc.prems(2) m nc have "t0 = now (tks ! i)" by simp
    with None nc show ?thesis
      by (intro exI [of _ i]) (auto simp: less_Suc_eq le_less)
  next
    case (Some t1)
    with Suc.prems(2) m nc have "t1 = t0" by simp
    with Some Suc.IH i obtain j where j: "j < i" "t0 = now (tks ! j)"
      "marker_at rt r th p s tks j = None"
      "\<forall>k. j \<le> k \<and> k < i \<longrightarrow> \<not> connected_at rt r th p s tks k"
      by auto
    have "\<forall>k. j \<le> k \<and> k < Suc i \<longrightarrow> \<not> connected_at rt r th p s tks k"
      using j(4) nc by (auto simp: less_Suc_eq)
    with j(1-3) show ?thesis by (intro exI [of _ j]) simp
  qed
qed

lemma marker_kept:
  assumes "0 < p" "marker_at rt r th p s tks i = Some t0"
  shows "i \<le> j \<Longrightarrow> j \<le> length tks \<Longrightarrow>
     (\<forall>k. i \<le> k \<and> k < j \<longrightarrow> \<not> connected_at rt r th p s tks k) \<Longrightarrow>
     marker_at rt r th p s tks j = Some t0"
proof (induction j)
  case 0
  then show ?case using assms(2) by simp
next
  case (Suc j)
  show ?case
  proof (cases "i = Suc j")
    case True
    then show ?thesis using assms(2) by simp
  next
    case False
    with Suc.prems have ij: "i \<le> j" and j: "j < length tks" by simp_all
    from Suc.prems(3) ij have nc: "\<not> connected_at rt r th p s tks j" by simp
    have "marker_at rt r th p s tks j = Some t0"
      using Suc.IH ij j Suc.prems(3) by simp
    then show ?thesis using nc by (simp add: marker_at_Suc [OF assms(1) j])
  qed
qed

lemma fetching_continues:
  assumes "0 < p" "fetched_at rt r th p s tks i" "i \<le> j" "j < length tks"
    "\<forall>k. i < k \<and> k \<le> j \<longrightarrow> \<not> connected_at rt r th p s tks k"
    "since (tks ! i) \<le> since (tks ! j)"
  shows "fetched_at rt r th p s tks j"
proof -
  have i: "i < length tks" using assms(3,4) by simp
  from assms(2) obtain t0 where
    nc: "\<not> connected_at rt r th p s tks i" and m: "marker_at rt r th p s tks i = Some t0"
    and el: "th \<le> Sub (since (tks ! i)) t0"
    unfolding fetched_at_iff [OF assms(1) i] by blast
  have all: "\<forall>k. i \<le> k \<and> k \<le> j \<longrightarrow> \<not> connected_at rt r th p s tks k"
    using nc assms(5) by (auto simp: le_less)
  then have "\<forall>k. i \<le> k \<and> k < j \<longrightarrow> \<not> connected_at rt r th p s tks k" by simp
  then have "marker_at rt r th p s tks j = Some t0"
    using marker_kept [OF assms(1) m assms(3)] assms(4) by simp
  moreover have "\<not> connected_at rt r th p s tks j" using all assms(3) by simp
  moreover have "th \<le> Sub (since (tks ! j)) t0"
    using el Sub_mono [OF assms(6), of t0] by linarith
  ultimately show ?thesis unfolding fetched_at_iff [OF assms(1,4)] by blast
qed

text \<open>
  C4. \<^verbatim>\<open>RunFallback\<close> over any sequence of ticks (with a positive poll interval) is the
  loop body applied tick by tick, and a tick issues one fetch or none. A tick that finds the
  store connected issues no fetch and clears the marker; a disconnected tick without a
  marker records the clock reading as the marker and issues no fetch; a disconnected tick
  with a marker issues a fetch exactly when the threshold has elapsed since the marker. The
  marker present at a tick was recorded by an earlier tick since which every tick found the
  store disconnected. Once a tick has fetched, every later tick fetches as long as no tick
  in between finds the store connected (the clock does not run backwards); the tick after
  one that finds it connected does not fetch.
\<close>

theorem RunFallback_policy:
  "0 < p \<Longrightarrow> i < length tks \<Longrightarrow>
     RunFallback rt r th p s tks = Some (state_after rt r th p s tks (length tks)) \<and>
     state_after rt r th p s tks 0 = s \<and>
     state_after rt r th p s tks (Suc i) =
       fallback_tick rt r th (state_after rt r th p s tks i) (tks ! i) \<and>
     connected_at rt r th p s tks i =
       isConnected (collector (state_after rt r th p s tks (Suc i))) \<and>
     fetches (state_after rt r th p s tks (Suc i)) =
       (if fetched_at rt r th p s tks i then Suc (fetches (state_after rt r th p s tks i))
        else fetches (state_after rt r th p s tks i)) \<and>
     (connected_at rt r th p s tks i \<longrightarrow>
        \<not> fetched_at rt r th p s tks i \<and> marker_at rt r th p s tks (Suc i) = None) \<and>
     (\<not> connected_at rt r th p s tks i \<and> marker_at rt r th p s tks i = None \<longrightarrow>
        \<not> fetched_at rt r th p s tks i \<and>
        marker_at rt r th p s tks (Suc i) = Some (now (tks ! i))) \<and>
     (\<not> connected_at rt r th p s tks i \<and> marker_at rt r th p s tks i = Some t0 \<longrightarrow>
        fetched_at rt r th p s tks i = (th \<le> Sub (since (tks ! i)) t0) \<and>
        marker_at rt r th p s tks (Suc i) = Some t0) \<and>
     (marker_at rt r th p s tks 0 = None \<and> marker_at rt r th p s tks i = Some t0 \<longrightarrow>
        (\<exists>j<i. t0 = now (tks ! j) \<and> marker_at rt r th p s tks j = None \<and>
           (\<forall>k. j \<le> k \<and> k < i \<longrightarrow> \<not> connected_at rt r th p s tks k))) \<and>
     (fetched_at rt r th p s tks i \<and> i \<le> j \<and> j < length tks \<and>
      (\<forall>k. i < k \<and> k \<le> j \<longrightarrow> \<not> connected_at rt r th p s tks k) \<and>
      since (tks ! i) \<le> since (tks ! j) \<longrightarrow> fetched_at rt r th p s tks j) \<and>
     (connected_at rt r th p s tks i \<and> Suc i < length tks \<longrightarrow>
        \<not> fetched_at rt r th p s tks (Suc i))"
proof -
  assume p: "0 < p" and i: "i < length tks"
  note f = fetched_at_iff [OF p i, of rt r th s]
  note m = marker_at_Suc [OF p i, of rt r th s]
  have c1: "RunFallback rt r th p s tks = Some (state_after rt r th p s tks (length tks))"
    using p by (rule RunFallback_state_after)
  have c2: "state_after rt r th p s tks 0 = s" using p by (rule state_after_0)
  have c3: "state_after rt r th p s tks (Suc i) =
       fallback_tick rt r th (state_after rt r th p s tks i) (tks ! i)"
    using p i by (rule state_after_Suc)
  have c4: "connected_at rt r th p s tks i =
       isConnected (collector (state_after rt r th p s tks (Suc i)))"
    unfolding c3 connected_at_def by (simp add: tick_collector_connected)
  have c5: "fetches (state_after rt r th p s tks (Suc i)) =
       (if fetched_at rt r th p s tks i then Suc (fetches (state_after rt r th p s tks i))
        else fetches (state_after rt r th p s tks i))"
    using p i by (rule fetches_at)
  have c6: "\<not> fetched_at rt r th p s tks i \<and> marker_at rt r th p s tks (Suc i) = None"
    if "connected_at rt r th p s tks i"
    using that f m by simp
  have c7: "\<not> fetched_at rt r th p s tks i \<and>
        marker_at rt r th p s tks (Suc i) = Some (now (tks ! i))"
    if "\<not> connected_at rt r th p s tks i \<and> marker_at rt r th p s tks i = None"
    using that f m by simp
  have c8: "fetched_at rt r th p s tks i = (th \<le> Sub (since (tks ! i)) t0) \<and>
        marker_at rt r th p s tks (Suc i) = Some t0"
    if "\<not> connected_at rt r th p s tks i \<and> marker_at rt r th p s tks i = Some t0"
    using that f m by simp
  have c9: "\<exists>j<i. t0 = now (tks ! j) \<and> marker_at rt r th p s tks j = None \<and>
           (\<forall>k. j \<le> k \<and> k < i \<longrightarrow> \<not> connected_at rt r th p s tks k)"
    if "marker_at rt r th p s tks 0 = None \<and> marker_at rt r th p s tks i = Some t0"
    using that marker_origin [OF p, of rt r th s tks i t0] i by simp
  have c10: "fetched_at rt r th p s tks j"
    if "fetched_at rt r th p s tks i \<and> i \<le> j \<and> j < length tks \<and>
      (\<forall>k. i < k \<and> k \<le> j \<longrightarrow> \<not> connected_at rt r th p s tks k) \<and>
      since (tks ! i) \<le> since (tks ! j)"
    using that fetching_continues [OF p, of rt r th s tks i j] by blast
  have c11: "\<not> fetched_at rt r th p s tks (Suc i)"
    if "connected_at rt r th p s tks i \<and> Suc i < length tks"
  proof -
    from that m have "marker_at rt r th p s tks (Suc i) = None" by simp
    then show ?thesis using that fetched_at_iff [OF p, of "Suc i" tks rt r th s] by simp
  qed
  show ?thesis
    using c1 c2 c3 c4 c5 c6 c7 c8 c9 c10 c11 by (intro conjI impI) blast+
qed

lemma tick_connected_example [simp]: "tick_connected s (example_tick c t) = c"
  by (simp add: tick_connected_def example_tick_def isConnected_def SetConnected_def)

lemma example_tick_times [simp]:
  "now (example_tick c t) = t" "since (example_tick c t) = t"
  by (simp_all add: example_tick_def)

text \<open>
  Six ticks a minute apart with a threshold of two minutes, from a store that is not
  connected: the first tick records the marker, the third and the fourth fetch, the fifth
  finds the store connected and the sixth records a new marker.
\<close>

lemma example_connected:
  "\<not> connected_at rt r th p s example_ticks 0" "\<not> connected_at rt r th p s example_ticks 1"
  "\<not> connected_at rt r th p s example_ticks 2" "\<not> connected_at rt r th p s example_ticks 3"
  "connected_at rt r th p s example_ticks 4" "\<not> connected_at rt r th p s example_ticks 5"
  by (simp_all add: connected_at_def example_ticks_def)

lemma example_markers:
  "marker_at rt r (2 * Minute) Minute (fallback_start c) example_ticks 0 = None"
  "marker_at rt r (2 * Minute) Minute (fallback_start c) example_ticks 1 = Some 60000000000"
  "marker_at rt r (2 * Minute) Minute (fallback_start c) example_ticks 2 = Some 60000000000"
  "marker_at rt r (2 * Minute) Minute (fallback_start c) example_ticks 3 = Some 60000000000"
  "marker_at rt r (2 * Minute) Minute (fallback_start c) example_ticks 4 = Some 60000000000"
  "marker_at rt r (2 * Minute) Minute (fallback_start c) example_ticks 5 = None"
  "marker_at rt r (2 * Minute) Minute (fallback_start c) example_ticks 6 = Some 360000000000"
proof -
  have m0: "disconnectedSince (fallback_start c) = None" by (simp add: fallback_start_def)
  show "marker_at rt r (2 * Minute) Minute (fallback_start c) example_ticks 0 = None"
    "marker_at rt r (2 * Minute) Minute (fallback_start c) example_ticks 1 = Some 60000000000"
    "marker_at rt r (2 * Minute) Minute (fallback_start c) example_ticks 2 = Some 60000000000"
    "marker_at rt r (2 * Minute) Minute (fallback_start c) example_ticks 3 = Some 60000000000"
    "marker_at rt r (2 * Minute) Minute (fallback_start c) example_ticks 4 = Some 60000000000"
    "marker_at rt r (2 * Minute) Minute (fallback_start c) example_ticks 5 = None"
    "marker_at rt r (2 * Minute) Minute (fallback_start c) example_ticks 6 = Some 360000000000"
    by (simp_all add: marker_at_def state_after_def RunFallback_def example_ticks_def
        Minute_def Second_def tick_marker m0)
qed

lemma example_fetches:
  "fetches (state_after rt r (2 * Minute) Minute (fallback_start c) example_ticks 2) = 0"
  "fetches (state_after rt r (2 * Minute) Minute (fallback_start c) example_ticks 6) = 2"
proof -
  have s0: "fetches (fallback_start c) = 0" "disconnectedSince (fallback_start c) = None"
    by (simp_all add: fallback_start_def fetches_def)
  show "fetches (state_after rt r (2 * Minute) Minute (fallback_start c) example_ticks 2) = 0"
    "fetches (state_after rt r (2 * Minute) Minute (fallback_start c) example_ticks 6) = 2"
    by (simp_all add: state_after_def RunFallback_def example_ticks_def Minute_def Second_def
        tick_fetches tick_marker threshold_elapsed_def s0 Sub_def MinInt64_def MaxInt64_def)
qed

theorem RunFallback_policy_witness:
  "(0::int) < Minute \<and> (2::nat) < length example_ticks \<and>
   RunFallback example_runtime (NewRESTClient ''abc123'' ''12345'') (2 * Minute) Minute
     (fallback_start (NewCollector ''12345'' ''backyard'')) example_ticks =
     Some (state_after example_runtime (NewRESTClient ''abc123'' ''12345'') (2 * Minute) Minute
       (fallback_start (NewCollector ''12345'' ''backyard'')) example_ticks 6) \<and>
   fetches (state_after example_runtime (NewRESTClient ''abc123'' ''12345'') (2 * Minute) Minute
     (fallback_start (NewCollector ''12345'' ''backyard'')) example_ticks 6) = 2 \<and>
   \<not> connected_at example_runtime (NewRESTClient ''abc123'' ''12345'') (2 * Minute) Minute
     (fallback_start (NewCollector ''12345'' ''backyard'')) example_ticks 0 \<and>
   marker_at example_runtime (NewRESTClient ''abc123'' ''12345'') (2 * Minute) Minute
     (fallback_start (NewCollector ''12345'' ''backyard'')) example_ticks 0 = None \<and>
   \<not> fetched_at example_runtime (NewRESTClient ''abc123'' ''12345'') (2 * Minute) Minute
     (fallback_start (NewCollector ''12345'' ''backyard'')) example_ticks 0 \<and>
   marker_at example_runtime (NewRESTClient ''abc123'' ''12345'') (2 * Minute) Minute
     (fallback_start (NewCollector ''12345'' ''backyard'')) example_ticks 1 =
     Some (now (example_ticks ! 0)) \<and>
   \<not> connected_at example_runtime (NewRESTClient ''abc123'' ''12345'') (2 * Minute) Minute
     (fallback_start (NewCollector ''12345'' ''backyard'')) example_ticks 1 \<and>
   \<not> fetched_at example_runtime (NewRESTClient ''abc123'' ''12345'') (2 * Minute) Minute
     (fallback_start (NewCollector ''12345'' ''backyard'')) example_ticks 1 \<and>
   \<not> connected_at example_runtime (NewRESTClient ''abc123'' ''12345'') (2 * Minute) Minute
     (fallback_start (NewCollector ''12345'' ''backyard'')) example_ticks 2 \<and>
   marker_at example_runtime (NewRESTClient ''abc123'' ''12345'') (2 * Minute) Minute
     (fallback_start (NewCollector ''12345'' ''backyard'')) example_ticks 2 = Some 60000000000 \<and>
   2 * Minute \<le> Sub (since (example_ticks ! 2)) 60000000000 \<and>
   fetched_at example_runtime (NewRESTClient ''abc123'' ''12345'') (2 * Minute) Minute
     (fallback_start (NewCollector ''12345'' ''backyard'')) example_ticks 2 \<and>
   fetches (state_after example_runtime (NewRESTClient ''abc123'' ''12345'') (2 * Minute) Minute
     (fallback_start (NewCollector ''12345'' ''backyard'')) example_ticks 3) = 1 \<and>
   \<not> connected_at example_runtime (NewRESTClient ''abc123'' ''12345'') (2 * Minute) Minute
     (fallback_start (NewCollector ''12345'' ''backyard'')) example_ticks 3 \<and>
   since (example_ticks ! 2) \<le> since (example_ticks ! 3) \<and>
   fetched_at example_runtime (NewRESTClient ''abc123'' ''12345'') (2 * Minute) Minute
     (fallback_start (NewCollector ''12345'' ''backyard'')) example_ticks 3 \<and>
   connected_at example_runtime (NewRESTClient ''abc123'' ''12345'') (2 * Minute) Minute
     (fallback_start (NewCollector ''12345'' ''backyard'')) example_ticks 4 \<and>
   \<not> fetched_at example_runtime (NewRESTClient ''abc123'' ''12345'') (2 * Minute) Minute
     (fallback_start (NewCollector ''12345'' ''backyard'')) example_ticks 4 \<and>
   marker_at example_runtime (NewRESTClient ''abc123'' ''12345'') (2 * Minute) Minute
     (fallback_start (NewCollector ''12345'' ''backyard'')) example_ticks 5 = None \<and>
   \<not> fetched_at example_runtime (NewRESTClient ''abc123'' ''12345'') (2 * Minute) Minute
     (fallback_start (NewCollector ''12345'' ''backyard'')) example_ticks 5"
proof -
  let ?rt = example_runtime
  let ?r = "NewRESTClient ''abc123'' ''12345''"
  let ?s = "fallback_start (NewCollector ''12345'' ''backyard'')"
  let ?conn = "connected_at ?rt ?r (2 * Minute) Minute ?s example_ticks"
  let ?mark = "marker_at ?rt ?r (2 * Minute) Minute ?s example_ticks"
  let ?fet = "fetched_at ?rt ?r (2 * Minute) Minute ?s example_ticks"
  let ?S = "state_after ?rt ?r (2 * Minute) Minute ?s example_ticks"
  have p: "(0::int) < Minute" by (simp add: Minute_def Second_def)
  have len: "length example_ticks = 6" by (simp add: example_ticks_def)
  note c = example_connected [of ?rt ?r "2 * Minute" Minute ?s]
  note m = example_markers [of ?rt ?r "NewCollector ''12345'' ''backyard''"]
  note f = example_fetches [of ?rt ?r "NewCollector ''12345'' ''backyard''"]
  have t: "now (example_ticks ! 0) = 60000000000"
    "since (example_ticks ! 2) = 180000000000" "since (example_ticks ! 3) = 240000000000"
    by (simp_all add: example_ticks_def)
  have el: "2 * Minute \<le> Sub (since (example_ticks ! 2)) 60000000000"
    by (simp add: t Sub_def MinInt64_def MaxInt64_def Minute_def Second_def)
  have le: "since (example_ticks ! 2) \<le> since (example_ticks ! 3)" by (simp add: t)
  have nel: "\<not> 2 * Minute \<le> Sub (since (example_ticks ! 1)) 60000000000"
    by (simp add: example_ticks_def Sub_def MinInt64_def MaxInt64_def Minute_def Second_def)
  have i: "0 < length example_ticks" "1 < length example_ticks" "2 < length example_ticks"
    "4 < length example_ticks" "3 < length example_ticks" "5 < length example_ticks"
    by (simp_all add: len)
  have n: "Suc 0 = 1" "Suc 1 = 2" "Suc 2 = 3" "Suc 3 = 4" "Suc 4 = 5" "Suc 5 = 6"
    by simp_all
  note T0 = RunFallback_policy [where rt = ?rt and r = ?r and th = "2 * Minute" and p = Minute
      and s = ?s and tks = example_ticks and i = 0 and j = 0 and ?t0.0 = 0, OF p i(1),
      unfolded n len]
  note T1 = RunFallback_policy [where rt = ?rt and r = ?r and th = "2 * Minute" and p = Minute
      and s = ?s and tks = example_ticks and i = 1 and j = 1 and ?t0.0 = 60000000000,
      OF p i(2), unfolded n len]
  note T2 = RunFallback_policy [where rt = ?rt and r = ?r and th = "2 * Minute" and p = Minute
      and s = ?s and tks = example_ticks and i = 2 and j = 3 and ?t0.0 = 60000000000,
      OF p i(3), unfolded n len]
  note T4 = RunFallback_policy [where rt = ?rt and r = ?r and th = "2 * Minute" and p = Minute
      and s = ?s and tks = example_ticks and i = 4 and j = 4 and ?t0.0 = 60000000000,
      OF p i(4), unfolded n len]
  from T0 have run: "RunFallback ?rt ?r (2 * Minute) Minute ?s example_ticks = Some (?S 6)"
    by blast
  from T0 have "\<not> ?conn 0 \<and> ?mark 0 = None \<longrightarrow>
      \<not> ?fet 0 \<and> ?mark 1 = Some (now (example_ticks ! 0))"
    by blast
  with c(1) m(1) have f0: "\<not> ?fet 0" "?mark 1 = Some (now (example_ticks ! 0))" by blast+
  from T1 have "\<not> ?conn 1 \<and> ?mark 1 = Some 60000000000 \<longrightarrow>
      ?fet 1 = (2 * Minute \<le> Sub (since (example_ticks ! 1)) 60000000000) \<and>
      ?mark 2 = Some 60000000000"
    by blast
  with c(2) m(2) nel have f1: "\<not> ?fet 1" by blast
  from T2 have "\<not> ?conn 2 \<and> ?mark 2 = Some 60000000000 \<longrightarrow>
      ?fet 2 = (2 * Minute \<le> Sub (since (example_ticks ! 2)) 60000000000) \<and>
      ?mark 3 = Some 60000000000"
    by blast
  with c(3) m(3) el have f2: "?fet 2" by blast
  from T2 have "fetches (?S 3) = (if ?fet 2 then Suc (fetches (?S 2)) else fetches (?S 2))"
    by blast
  with f2 f(1) have s3: "fetches (?S 3) = 1" by simp
  have k: "\<forall>k. 2 < k \<and> k \<le> 3 \<longrightarrow> \<not> ?conn k"
  proof (intro allI impI)
    fix k :: nat assume "2 < k \<and> k \<le> 3"
    then have "k = 3" by simp
    then show "\<not> ?conn k" using c(4) by simp
  qed
  from T2 have "?fet 2 \<and> 2 \<le> (3::nat) \<and> (3::nat) < 6 \<and> (\<forall>k. 2 < k \<and> k \<le> 3 \<longrightarrow> \<not> ?conn k) \<and>
      since (example_ticks ! 2) \<le> since (example_ticks ! 3) \<longrightarrow> ?fet 3"
    by blast
  with f2 k le have f3: "?fet 3" by simp
  from T4 have "?conn 4 \<longrightarrow> \<not> ?fet 4 \<and> ?mark 5 = None" and "?conn 4 \<and> 5 < (6::nat) \<longrightarrow> \<not> ?fet 5"
    by blast+
  with c(5) have f4: "\<not> ?fet 4" "?mark 5 = None" "\<not> ?fet 5" by simp_all
  have len2: "(2::nat) < length example_ticks" by (simp add: len)
  show ?thesis
    using p len2 run f(2) c(1-5) m(1,3) f0 f1 f2 s3 el le f3 f4 by blast
qed

end
